theory Spec2Isabelle
  imports Complex_Main
begin

section \<open>Numbers and coordinates\<close>

text \<open>
  The program is TypeScript. Its numbers are modelled as follows: voxel and chunk
  coordinates, tile identifiers and the chunk size are integers (\<open>int\<close>); camera
  positions, atlas ratios, UV coordinates, noise values and octree boxes are \<open>real\<close>.
  A value that the source can turn into \<open>NaN\<close> by adding \<open>undefined\<close> to a number is a
  \<open>jsnum\<close>. Arithmetic is exact: the rounding of IEEE doubles is not modelled, and a
  statement about a quotient is made for a divisor other than zero.
\<close>

type_synonym XYZ = "int \<times> int \<times> int"

datatype jsnum = NaN | Num real

definition Math_round :: "real \<Rightarrow> int" where
  \<comment> \<open>\<open>Math.round\<close>: the nearest integer, a half rounded towards plus infinity.\<close>
  "Math_round v = \<lfloor>v + 1 / 2\<rfloor>"

section \<open>The noise field and the elevation (render.ts, lines 82--89)\<close>

definition getElevation :: "(int \<Rightarrow> int \<Rightarrow> real) \<Rightarrow> int \<Rightarrow> int \<Rightarrow> real" where
  \<comment> \<open>\<open>getCoord\<close> (the result of \<open>createNoise2D()\<close>, a library that is not part of the
      sources) is the first argument.\<close>
  "getElevation getCoord xa ya =
     (let xr = Math_round (real_of_int xa / 2);
          yr = Math_round (real_of_int ya / 2)
      in real_of_int (Math_round ((getCoord xr yr / 2) * 10)) / 10)"

section \<open>SparseVoxelMap\<close>

type_synonym CoordinateMap3D = "XYZ \<rightharpoonup> int"

definition CoordinateMap3D_get :: "CoordinateMap3D \<Rightarrow> int \<Rightarrow> int \<Rightarrow> int \<Rightarrow> int option" where
  \<comment> \<open>Modelled from the spec: the class \<open>CoordinateMap3D\<close> of voxel-block is not part of
      the sources. \<open>get(x,y,z)\<close> returns the tile id or an explicit absent value
      (\<open>undefined\<close> in the caller's test \<open>neighbor == undefined\<close>).\<close>
  "CoordinateMap3D_get m xa ya za = m (xa, ya, za)"

definition CoordinateMap3D_set :: "CoordinateMap3D \<Rightarrow> int \<Rightarrow> int \<Rightarrow> int \<Rightarrow> int \<Rightarrow> CoordinateMap3D" where
  \<comment> \<open>Modelled from the spec: \<open>set(x,y,z,tile)\<close> inserts or overwrites the tile id at a key.\<close>
  "CoordinateMap3D_set m xa ya za tile = m((xa, ya, za) \<mapsto> tile)"

section \<open>SpatialIndex (Octree)\<close>

record Box =
  x0 :: real
  y0 :: real
  z0 :: real
  width :: real
  height :: real
  depth :: real

datatype Octree = Octree (bounds: Box) (items: "Box list") (children: "Octree list")

definition overlaps :: "Box \<Rightarrow> Box \<Rightarrow> bool" where
  \<comment> \<open>Modelled from the spec: two axis-aligned boxes intersect; a box that does not
      intersect the tree's box lies fully outside it. Boxes are half-open.\<close>
  "overlaps a b =
     (x0 a < x0 b + width b \<and> x0 b < x0 a + width a \<and>
      y0 a < y0 b + height b \<and> y0 b < y0 a + height a \<and>
      z0 a < z0 b + depth b \<and> z0 b < z0 a + depth a)"

definition contains :: "Box \<Rightarrow> Box \<Rightarrow> bool" where
  \<comment> \<open>Modelled from the spec: the second box lies within the first.\<close>
  "contains outer inner =
     (x0 outer \<le> x0 inner \<and> x0 inner + width inner \<le> x0 outer + width outer \<and>
      y0 outer \<le> y0 inner \<and> y0 inner + height inner \<le> y0 outer + height outer \<and>
      z0 outer \<le> z0 inner \<and> z0 inner + depth inner \<le> z0 outer + depth outer)"

definition octants :: "Box \<Rightarrow> Box list" where
  \<comment> \<open>Modelled from the spec: the eight half-size boxes that partition a node's volume.\<close>
  "octants b =
     [\<lparr>x0 = x0 b + dx * (width b / 2), y0 = y0 b + dy * (height b / 2),
       z0 = z0 b + dz * (depth b / 2),
       width = width b / 2, height = height b / 2, depth = depth b / 2\<rparr>.
      dx \<leftarrow> [0, 1], dy \<leftarrow> [0, 1], dz \<leftarrow> [0, 1]]"

definition Octree_new :: "Box \<Rightarrow> Octree" where
  \<comment> \<open>Modelled from the spec: an index is constructed with a fixed bounding box and is
      empty.\<close>
  "Octree_new b = Octree b [] []"

definition subdivide :: "Box \<Rightarrow> Box list \<Rightarrow> Octree" where
  \<comment> \<open>Modelled from the spec: a node whose item count exceeds the capacity splits into
      octants; an item that lies within an octant moves there, an item that straddles a
      split boundary stays at the parent.\<close>
  "subdivide b its =
     Octree b
       (filter (\<lambda>it. \<not> list_ex (\<lambda>ob. contains ob it) (octants b)) its)
       (map (\<lambda>ob. Octree ob (filter (contains ob) its) []) (octants b))"

fun insert_item :: "nat \<Rightarrow> Box \<Rightarrow> Octree \<Rightarrow> Octree" where
  \<comment> \<open>Modelled from the spec: the class \<open>Octree\<close> of lib/quadrant is not part of the
      sources. \<open>insert(item)\<close> is a silent no-op when the item lies fully outside the
      tree's box; otherwise the item is stored in the octant that holds it, or at the
      node itself when it straddles a split boundary; a leaf whose item count would
      exceed the capacity threshold \<open>cap\<close> splits.\<close>
  "insert_item cap it (Octree b its kids) =
     (if \<not> overlaps it b then Octree b its kids
      else if kids = [] then
        (if length its < cap then Octree b (its @ [it]) []
         else subdivide b (its @ [it]))
      else if list_ex (\<lambda>k. contains (bounds k) it) kids then
        Octree b its
          (map (\<lambda>k. if contains (bounds k) it then insert_item cap it k else k) kids)
      else Octree b (its @ [it]) kids)"

fun query :: "Box \<Rightarrow> Octree \<Rightarrow> Box list" where
  \<comment> \<open>Modelled from the spec: a range query returns the items whose box intersects the
      query box; an octant that the query box misses is not searched.\<close>
  "query q (Octree b its kids) =
     filter (overlaps q) its
     @ concat (map (\<lambda>k. if overlaps q (bounds k) then query q k else []) kids)"

section \<open>Face descriptors and mesh buffers\<close>

record corner =
  pos :: XYZ
  uv :: "int \<times> int"

record face =
  uvRow :: int
  dir :: XYZ
  corners :: "corner list"

record Buffers =
  positions :: "int list"
  normals :: "int list"
  indices :: "real list"
  uvs :: "jsnum list"

record Mesh =
  mesh_id :: nat
  geometry :: Buffers
  position :: "real \<times> real \<times> real"

datatype Object3D = AmbientLight | MeshObject Mesh

fun scene_remove :: "Object3D list \<Rightarrow> Mesh \<Rightarrow> Object3D list" where
  \<comment> \<open>\<open>scene.remove(mesh)\<close> of the rendering library: the object is taken out of the
      scene's children if it is one of them; objects are compared by identity.\<close>
  "scene_remove [] m = []"
| "scene_remove (AmbientLight # sc) m = AmbientLight # scene_remove sc m"
| "scene_remove (MeshObject m' # sc) m =
     (if mesh_id m' = mesh_id m then sc else MeshObject m' # scene_remove sc m)"

section \<open>VoxelWorld (src/unnamed/part_000)\<close>

record uv_opts =
  uv_size :: real
  imageWidth :: real
  imageHeight :: real

record VoxelContructorOpts =
  chunkSize :: int
  opt_scene :: "Object3D list"
  opt_uv :: uv_opts

record VoxelWorld =
  CHUNK_SIZE :: int
  scene :: "Object3D list"
  voxelFaceMap :: CoordinateMap3D
  tileWidthRatio :: real
  tileHeightRatio :: real
  next_id :: nat

text \<open>
  \<open>next_id\<close> is not a field of the class: it is the identity that the next \<open>new Mesh\<close>
  receives, so that two meshes with equal buffers remain two objects.
  The collaborators that the class imports and that are not part of the sources are
  the fields of \<open>collaborators\<close>.
\<close>

record collaborators =
  getCoord :: "int \<Rightarrow> int \<Rightarrow> real"
  loadVoxelChunk :: "int \<Rightarrow> (int \<times> int) list"
  faces :: "face list"
  capacity :: nat

text \<open>
  Modelled from the spec: \<open>loadVoxelChunk(addBlock, yBase)\<close> of chunks/load-chunk is not
  part of the sources. It is the column-fill policy: given the base y offset it decides
  which y levels receive which tile, and calls \<open>addBlock(tileId, y)\<close> for each; the field
  \<open>loadVoxelChunk\<close> gives the sequence of these calls. \<open>faces\<close> is the static face table
  of voxel-block, \<open>capacity\<close> the octree's capacity threshold.
\<close>

definition VoxelWorld_new :: "VoxelContructorOpts \<Rightarrow> nat \<Rightarrow> VoxelWorld" where
  "VoxelWorld_new opts fresh =
     \<lparr>CHUNK_SIZE = chunkSize opts,
      scene = opt_scene opts @ [AmbientLight],
      voxelFaceMap = Map.empty,
      tileWidthRatio = uv_size (opt_uv opts) / imageWidth (opt_uv opts),
      tileHeightRatio = uv_size (opt_uv opts) / imageHeight (opt_uv opts),
      next_id = fresh\<rparr>"

definition addBlockToTree :: "nat \<Rightarrow> Octree \<Rightarrow> XYZ \<Rightarrow> Octree" where
  "addBlockToTree cap t p =
     (case p of (px, py, pz) \<Rightarrow>
        insert_item cap
          \<lparr>x0 = real_of_int px, y0 = real_of_int py, z0 = real_of_int pz,
           width = 1, height = 1, depth = 1\<rparr> t)"

type_synonym gen_state = "VoxelWorld \<times> Octree \<times> XYZ list"

definition addBlock :: "nat \<Rightarrow> int \<Rightarrow> int \<Rightarrow> gen_state \<Rightarrow> int \<times> int \<Rightarrow> gen_state" where
  \<comment> \<open>The closure \<open>addBlock(uv, yy)\<close> of \<open>loadVoxel\<close>; the state is the world, the chunk's
      tree and the array \<open>blocksToIterate\<close>.\<close>
  "addBlock cap xc zc st call =
     (case st of (w, t, array) \<Rightarrow>
      case call of (tile, yy) \<Rightarrow>
        (let newPos = (xc, yy, zc)
         in (w\<lparr>voxelFaceMap := CoordinateMap3D_set (voxelFaceMap w) xc yy zc tile\<rparr>,
             addBlockToTree cap t newPos,
             array @ [newPos])))"

definition loadVoxel :: "collaborators \<Rightarrow> int \<Rightarrow> int \<Rightarrow> int \<Rightarrow> gen_state \<Rightarrow> gen_state" where
  "loadVoxel env xc zc yb st =
     (let elev = getElevation (getCoord env) xc zc - 5
      in foldl (addBlock (capacity env) xc zc) st (loadVoxelChunk env yb))"

definition loopChunk :: "int \<Rightarrow> int \<Rightarrow> int \<Rightarrow> (int \<Rightarrow> int \<Rightarrow> 's \<Rightarrow> 's) \<Rightarrow> 's \<Rightarrow> 's" where
  \<comment> \<open>The outer loop runs over \<open>i\<close>, the inner one over \<open>z\<close>; \<open>f(z + x, i + y)\<close>.\<close>
  "loopChunk n xb yb f s =
     fold (\<lambda>i. fold (\<lambda>zi. f (zi + xb) (i + yb)) [0..n - 1]) [0..n - 1] s"

definition corner_uv :: "VoxelWorld \<Rightarrow> int option \<Rightarrow> int \<Rightarrow> corner \<Rightarrow> jsnum list" where
  \<comment> \<open>The two numbers pushed on \<open>uvs\<close> for a corner; \<open>uvVoxel\<close> may be \<open>undefined\<close>.\<close>
  "corner_uv w uvVoxel row c =
     [case uvVoxel of
        None \<Rightarrow> NaN
      | Some tile \<Rightarrow> Num (real_of_int (tile + fst (uv c)) * tileWidthRatio w),
      Num (1 - real_of_int (row + 1 - snd (uv c)) * tileHeightRatio w)]"

fun push_corners ::
  "VoxelWorld \<Rightarrow> int option \<Rightarrow> face \<Rightarrow> XYZ \<Rightarrow> corner list \<Rightarrow> Buffers \<Rightarrow> Buffers" where
  "push_corners w uvVoxel f p [] b = b"
| "push_corners w uvVoxel f p (c # cs) b =
     (case p of (px, py, pz) \<Rightarrow>
      case pos c of (c0, c1, c2) \<Rightarrow>
      case dir f of (d0, d1, d2) \<Rightarrow>
        push_corners w uvVoxel f p cs
          (b\<lparr>positions := positions b @ [c0 + px, c1 + py, c2 + pz],
             normals := normals b @ [d0, d1, d2],
             uvs := uvs b @ corner_uv w uvVoxel (uvRow f) c\<rparr>))"

definition neighbor :: "VoxelWorld \<Rightarrow> XYZ \<Rightarrow> face \<Rightarrow> int option" where
  "neighbor w p f =
     (case p of (px, py, pz) \<Rightarrow>
      case dir f of (d0, d1, d2) \<Rightarrow>
        CoordinateMap3D_get (voxelFaceMap w) (px + d0) (py + d1) (pz + d2))"

definition make_face :: "VoxelWorld \<Rightarrow> int option \<Rightarrow> XYZ \<Rightarrow> face \<Rightarrow> Buffers \<Rightarrow> Buffers" where
  \<comment> \<open>The body of the loop over \<open>faces\<close> in \<open>findFaces\<close>.\<close>
  "make_face w uvVoxel p f b =
     (case neighbor w p f of
        Some tile \<Rightarrow> b
      | None \<Rightarrow>
          (let ndx = real (length (positions b)) / 3;
               b' = push_corners w uvVoxel f p (corners f) b
           in b'\<lparr>indices := indices b' @ [ndx, ndx + 1, ndx + 2, ndx + 2, ndx + 1, ndx + 3]\<rparr>))"

definition findFaces :: "collaborators \<Rightarrow> VoxelWorld \<Rightarrow> XYZ \<Rightarrow> Buffers \<Rightarrow> Buffers" where
  "findFaces env w p b =
     (case p of (px, py, pz) \<Rightarrow>
        (let uvVoxel = CoordinateMap3D_get (voxelFaceMap w) px py pz
         in foldl (\<lambda>acc f. make_face w uvVoxel p f acc) b (faces env)))"

record LoadedChunk =
  tree :: Octree
  blocks :: "Mesh list"

definition empty_buffers :: Buffers where
  "empty_buffers = \<lparr>positions = [], normals = [], indices = [], uvs = []\<rparr>"

definition default_chunkY :: "int option \<Rightarrow> int" where
  \<comment> \<open>\<open>chunkY ||= -1\<close>: an omitted argument and the number 0 are both falsy.\<close>
  "default_chunkY chunkY =
     (case chunkY of None \<Rightarrow> - 1 | Some c \<Rightarrow> if c = 0 then - 1 else c)"

definition generate :: "collaborators \<Rightarrow> VoxelWorld \<Rightarrow> int \<Rightarrow> int \<Rightarrow> int option \<Rightarrow> gen_state" where
  \<comment> \<open>The first half of \<open>loadChunk\<close>: the tree is built and every column is filled.\<close>
  "generate env w chunkX chunkZ chunkY =
     (let cY = default_chunkY chunkY;
          xb = chunkX * CHUNK_SIZE w;
          yb = cY * CHUNK_SIZE w;
          zb = chunkZ * CHUNK_SIZE w;
          t = Octree_new
                \<lparr>x0 = real_of_int xb, y0 = real_of_int yb, z0 = real_of_int zb,
                 width = real_of_int (CHUNK_SIZE w), height = real_of_int (CHUNK_SIZE w),
                 depth = real_of_int (CHUNK_SIZE w)\<rparr>
      in loopChunk (CHUNK_SIZE w) xb zb (\<lambda>xc zc. loadVoxel env xc zc yb) (w, t, []))"

definition mesh_buffers :: "collaborators \<Rightarrow> VoxelWorld \<Rightarrow> XYZ list \<Rightarrow> Buffers" where
  \<comment> \<open>The loop \<open>for (const pos of blocksToIterate) this.findFaces(...)\<close>.\<close>
  "mesh_buffers env w blocksToIterate =
     foldl (\<lambda>b p. findFaces env w p b) empty_buffers blocksToIterate"

definition loadChunk ::
  "collaborators \<Rightarrow> VoxelWorld \<Rightarrow> int \<Rightarrow> int \<Rightarrow> int option \<Rightarrow> LoadedChunk \<times> VoxelWorld" where
  \<comment> \<open>The geometry of the mesh holds the four arrays as the mesher built them; what
      the rendering library does with them afterwards (typed arrays, the material,
      \<open>computeVertexNormals\<close>) is not modelled.\<close>
  "loadChunk env w chunkX chunkZ chunkY =
     (case generate env w chunkX chunkZ chunkY of (w1, t, blocksToIterate) \<Rightarrow>
        (let bufs = mesh_buffers env w1 blocksToIterate;
             mesh = \<lparr>mesh_id = next_id w1, geometry = bufs,
                     position = (- (1 / 10), 0, - (1 / 10))\<rparr>
         in (\<lparr>tree = t, blocks = [mesh]\<rparr>,
             w1\<lparr>scene := scene w1 @ [MeshObject mesh], next_id := Suc (next_id w1)\<rparr>)))"

definition exposed_faces :: "collaborators \<Rightarrow> VoxelWorld \<Rightarrow> XYZ \<Rightarrow> face list" where
  \<comment> \<open>The spec's notion of an exposed face of a voxel: a face of the table whose
      neighbour lookup is absent.\<close>
  "exposed_faces env w p = filter (\<lambda>f. neighbor w p f = None) (faces env)"

definition exposed_count :: "collaborators \<Rightarrow> VoxelWorld \<Rightarrow> XYZ list \<Rightarrow> nat" where
  "exposed_count env w ps = sum_list (map (\<lambda>p. length (exposed_faces env w p)) ps)"

definition face_uvs :: "VoxelWorld \<Rightarrow> int \<Rightarrow> face \<Rightarrow> jsnum list" where
  \<comment> \<open>The spec's UV formula for the corners of one face of a voxel with tile \<open>tileId\<close>.\<close>
  "face_uvs w tileId f =
     concat (map (\<lambda>c.
        [Num (real_of_int (tileId + fst (uv c)) * tileWidthRatio w),
         Num (1 - real_of_int (uvRow f + 1 - snd (uv c)) * tileHeightRatio w)]) (corners f))"

section \<open>The first world generator (render.ts, lines 91--157)\<close>

datatype material = Grass | Stone

record block =
  block_material :: material
  block_position :: "real \<times> real \<times> real"

definition add_blocks :: "(int \<Rightarrow> int \<Rightarrow> real) \<Rightarrow> int \<Rightarrow> int \<Rightarrow> block list" where
  \<comment> \<open>\<open>add_blocks({xc, yc})\<close> of \<open>generateWorld\<close>: a grass block at the elevation and a
      stone block below it, in the order in which they are added.\<close>
  "add_blocks noise xc yc =
     (let elev = getElevation noise xc yc - 5
      in [\<lparr>block_material = Grass,
            block_position = (real_of_int xc, elev, real_of_int yc)\<rparr>,
          \<lparr>block_material = Stone,
            block_position = (real_of_int xc, elev - 1, real_of_int yc)\<rparr>])"

section \<open>The chunk streamer (render.ts, lines 1--73)\<close>

type_synonym chunk_store = "((int \<times> int) \<times> LoadedChunk) list"

text \<open>
  Modelled from the spec: the class of \<open>cam.octrees\<close> is not part of the sources. It is
  the chunk store: one entry (tree and meshes) per chunk coordinate pair, as an
  association list in insertion order with one entry per key; the streamer reads a key
  \<open>"cx,cy"\<close> back as the pair of integers \<open>(cx, cy)\<close>. \<open>cam.octrees\<close> may be \<open>undefined\<close>.

  The state of the module: the world (whose scene is the one handed to
  \<open>setRenderScene\<close>), the store, the camera position, the tick counter, the render
  distance of \<open>gameState\<close>, and the number of times the console was cleared.
\<close>

record game_state =
  world :: VoxelWorld
  octrees :: "chunk_store option"
  camera_x :: real
  camera_z :: real
  counter :: int
  renderDistance :: int
  console_clears :: nat

record render_imports =
  floorMultiple :: "real \<Rightarrow> real \<Rightarrow> real"
  main_CHUNK_SIZE :: real

text \<open>
  \<open>floorMultiple\<close> of lib/util and \<open>CHUNK_SIZE\<close> of main are not part of the sources and
  are the two fields of \<open>render_imports\<close>.
\<close>

definition floor_to_multiple :: "real \<Rightarrow> real \<Rightarrow> real" where
  \<comment> \<open>Modelled from the spec: the viewer's position is floor-divided by the chunk size;
      \<open>floorMultiple(v, m)\<close> is the largest multiple of \<open>m\<close> that is at most \<open>v\<close>.\<close>
  "floor_to_multiple v m = real_of_int \<lfloor>v / m\<rfloor> * m"

definition counterOg :: int where
  "counterOg = 50"

definition viewer_x :: "render_imports \<Rightarrow> game_state \<Rightarrow> real" where
  "viewer_x imp s = floorMultiple imp (camera_x s) (main_CHUNK_SIZE imp) / 8"

definition viewer_y :: "render_imports \<Rightarrow> game_state \<Rightarrow> real" where
  "viewer_y imp s = floorMultiple imp (camera_z s) (main_CHUNK_SIZE imp) / 8"

definition out_of_radius :: "real \<Rightarrow> real \<Rightarrow> int \<Rightarrow> int \<times> int \<Rightarrow> bool" where
  \<comment> \<open>The test \<open>x < cx || x >= cx + r || y < cy || y >= cy + r\<close>.\<close>
  "out_of_radius vx vy r c =
     (case c of (cx, cy) \<Rightarrow>
        vx < real_of_int cx \<or> vx \<ge> real_of_int (cx + r) \<or>
        vy < real_of_int cy \<or> vy \<ge> real_of_int (cy + r))"

fun delete_loop ::
  "real \<Rightarrow> real \<Rightarrow> int \<Rightarrow> chunk_store \<Rightarrow> Object3D list \<Rightarrow> chunk_store \<times> Object3D list" where
  \<comment> \<open>The loop over the keys of the store; the result is the store and the scene.\<close>
  "delete_loop vx vy r [] sc = ([], sc)"
| "delete_loop vx vy r ((c, ch) # rest) sc =
     (if out_of_radius vx vy r c then
        delete_loop vx vy r rest (foldl scene_remove sc (blocks ch))
      else
        (case delete_loop vx vy r rest sc of (kept, sc') \<Rightarrow> ((c, ch) # kept, sc')))"

definition deleteIfOutRadius :: "render_imports \<Rightarrow> int \<Rightarrow> game_state \<Rightarrow> game_state" where
  "deleteIfOutRadius imp r0 s =
     (let r = r0 + 1;
          vx = viewer_x imp s;
          vy = viewer_y imp s
      in case octrees s of
           None \<Rightarrow> s
         | Some m \<Rightarrow>
             (case delete_loop vx vy r m (scene (world s)) of (m', sc') \<Rightarrow>
                s\<lparr>octrees := Some m', world := (world s)\<lparr>scene := sc'\<rparr>\<rparr>))"

definition store_get :: "chunk_store \<Rightarrow> real \<Rightarrow> real \<Rightarrow> LoadedChunk option" where
  \<comment> \<open>Modelled from the spec: \<open>cam.octrees.get(xx, yy)\<close> looks the coordinate pair up.\<close>
  "store_get m xx yy =
     (if real_of_int \<lfloor>xx\<rfloor> = xx \<and> real_of_int \<lfloor>yy\<rfloor> = yy then map_of m (\<lfloor>xx\<rfloor>, \<lfloor>yy\<rfloor>)
      else None)"

function add_columns :: "game_state \<Rightarrow> real \<Rightarrow> real \<Rightarrow> real \<Rightarrow> bool \<times> game_state" where
  \<comment> \<open>The inner loop of \<open>addInRadius\<close> from \<open>xx\<close> on; the flag says that the function
      returned from inside the loop. The call that would load a chunk is a comment in
      the source, so both branches of the lookup continue with the state as it is.\<close>
  "add_columns s yy xx xlim =
     (if xx < xlim then
        (case octrees s of
           None \<Rightarrow> (True, s)
         | Some m \<Rightarrow>
             (case store_get m xx yy of
                None \<Rightarrow> add_columns s yy (xx + 1) xlim
              | Some ch \<Rightarrow> add_columns s yy (xx + 1) xlim))
      else (False, s))"
  by pat_completeness auto
termination
proof (relation "measure (\<lambda>(s, yy, xx, xlim). nat \<lceil>xlim - xx\<rceil>)")
  show "wf (measure (\<lambda>(s, yy, xx, xlim). nat \<lceil>xlim - xx\<rceil>))"
    by simp
next
  fix s :: game_state and yy xx xlim :: real
  assume "xx < xlim"
  then have "0 < \<lceil>xlim - xx\<rceil>" and "\<lceil>xlim - (xx + 1)\<rceil> = \<lceil>xlim - xx\<rceil> - 1"
    by linarith+
  then have "nat \<lceil>xlim - (xx + 1)\<rceil> < nat \<lceil>xlim - xx\<rceil>"
    by linarith
  then show "((s, yy, xx + 1, xlim), (s, yy, xx, xlim)) \<in> measure (\<lambda>(s, yy, xx, xlim). nat \<lceil>xlim - xx\<rceil>)"
    by simp
  then show "((s, yy, xx + 1, xlim), (s, yy, xx, xlim)) \<in> measure (\<lambda>(s, yy, xx, xlim). nat \<lceil>xlim - xx\<rceil>)"
    by simp
qed

function add_rows :: "game_state \<Rightarrow> real \<Rightarrow> real \<Rightarrow> real \<Rightarrow> real \<Rightarrow> game_state" where
  \<comment> \<open>The outer loop of \<open>addInRadius\<close> from \<open>yy\<close> on.\<close>
  "add_rows s vx xlim yy ylim =
     (if yy < ylim then
        (case add_columns s yy vx xlim of
           (True, s') \<Rightarrow> s'
         | (False, s') \<Rightarrow> add_rows s' vx xlim (yy + 1) ylim)
      else s)"
  by pat_completeness auto
termination
proof (relation "measure (\<lambda>(s, vx, xlim, yy, ylim). nat \<lceil>ylim - yy\<rceil>)")
  show "wf (measure (\<lambda>(s, vx, xlim, yy, ylim). nat \<lceil>ylim - yy\<rceil>))"
    by simp
next
  fix s s' :: game_state and vx xlim yy ylim :: real
  assume "yy < ylim"
  then have "0 < \<lceil>ylim - yy\<rceil>" and "\<lceil>ylim - (yy + 1)\<rceil> = \<lceil>ylim - yy\<rceil> - 1"
    by linarith+
  then have "nat \<lceil>ylim - (yy + 1)\<rceil> < nat \<lceil>ylim - yy\<rceil>"
    by linarith
  then show "((s', vx, xlim, yy + 1, ylim), (s, vx, xlim, yy, ylim))
      \<in> measure (\<lambda>(s, vx, xlim, yy, ylim). nat \<lceil>ylim - yy\<rceil>)"
    by simp
qed

declare add_columns.simps [simp del] add_rows.simps [simp del]

definition addInRadius :: "render_imports \<Rightarrow> int \<Rightarrow> game_state \<Rightarrow> game_state" where
  "addInRadius imp r s =
     (let vx = viewer_x imp s;
          vy = viewer_y imp s
      in add_rows s vx (vx + real_of_int r) vy (vy + real_of_int r))"

definition chunkRenderLoop :: "game_state \<Rightarrow> game_state" where
  \<comment> \<open>The callback handed to \<open>stopLoop\<close>, one call of which is a streamer tick. The calls
      of \<open>deleteIfOutRadius\<close> and \<open>addInRadius\<close> are comments in the source.\<close>
  "chunkRenderLoop s =
     (let c = counter s;
          s1 = s\<lparr>counter := c - 1\<rparr>
      in if c \<le> 0 then
           (let s2 = s1\<lparr>counter := counterOg\<rparr>;
                s3 = s2\<lparr>console_clears := Suc (console_clears s2)\<rparr>;
                renderDistance' = renderDistance s3
            in s3)
         else s1)"

definition in_window :: "real \<Rightarrow> real \<Rightarrow> int \<Rightarrow> int \<times> int \<Rightarrow> bool" where
  \<comment> \<open>The spec's window: the viewer coordinate lies in \<open>[cx, cx+r) \<times> [cy, cy+r)\<close>.\<close>
  "in_window vx vy r c =
     (case c of (cx, cy) \<Rightarrow>
        real_of_int cx \<le> vx \<and> vx < real_of_int cx + real_of_int r \<and>
        real_of_int cy \<le> vy \<and> vy < real_of_int cy + real_of_int r)"

definition unloaded_meshes :: "real \<Rightarrow> real \<Rightarrow> int \<Rightarrow> chunk_store \<Rightarrow> Mesh list" where
  \<comment> \<open>The meshes of the store entries whose window does not hold the viewer.\<close>
  "unloaded_meshes vx vy r m =
     concat (map (\<lambda>e. blocks (snd e)) (filter (\<lambda>e. \<not> in_window vx vy r (fst e)) m))"

section \<open>Invariants of chunk generation\<close>

definition frame_of :: "VoxelWorld \<Rightarrow> gen_state \<Rightarrow> bool" where
  \<comment> \<open>The fields of the world that filling a chunk's columns does not write.\<close>
  "frame_of w st =
     (CHUNK_SIZE (fst st) = CHUNK_SIZE w \<and> scene (fst st) = scene w \<and>
      tileWidthRatio (fst st) = tileWidthRatio w \<and>
      tileHeightRatio (fst st) = tileHeightRatio w \<and> next_id (fst st) = next_id w)"

definition listed_in_map :: "gen_state \<Rightarrow> bool" where
  \<comment> \<open>Every position of \<open>blocksToIterate\<close> has a tile in the voxel map.\<close>
  "listed_in_map st = list_all (\<lambda>p. voxelFaceMap (fst st) p \<noteq> None) (snd (snd st))"

definition same_voxels :: "gen_state \<Rightarrow> gen_state \<Rightarrow> bool" where
  \<comment> \<open>Two generation states with the same voxel map, tree and position list.\<close>
  "same_voxels st1 st2 =
     (voxelFaceMap (fst st1) = voxelFaceMap (fst st2) \<and> snd st1 = snd st2)"

definition tree_box :: "Box \<Rightarrow> gen_state \<Rightarrow> bool" where
  \<comment> \<open>The chunk's tree has the bounding box \<open>bx\<close>.\<close>
  "tree_box bx st = (bounds (fst (snd st)) = bx)"

definition unit_cube :: "XYZ \<Rightarrow> Box" where
  \<comment> \<open>The item that \<open>addBlockToTree\<close> inserts for a voxel position.\<close>
  "unit_cube p =
     (case p of (px, py, pz) \<Rightarrow>
        \<lparr>x0 = real_of_int px, y0 = real_of_int py, z0 = real_of_int pz,
         width = 1, height = 1, depth = 1\<rparr>)"

fun scene_ids :: "Object3D list \<Rightarrow> nat list" where
  \<comment> \<open>The identities of the meshes of a scene, in order.\<close>
  "scene_ids [] = []"
| "scene_ids (AmbientLight # sc) = scene_ids sc"
| "scene_ids (MeshObject m # sc) = mesh_id m # scene_ids sc"

definition column_writes :: "collaborators \<Rightarrow> int \<Rightarrow> int \<Rightarrow> int \<Rightarrow> (XYZ \<times> int) list" where
  \<comment> \<open>The writes to the voxel map that filling one column performs, in order.\<close>
  "column_writes env xc zc yb = map (\<lambda>call. ((xc, snd call, zc), fst call)) (loadVoxelChunk env yb)"

definition chunk_writes :: "collaborators \<Rightarrow> int \<Rightarrow> int \<Rightarrow> int \<Rightarrow> int \<Rightarrow> (XYZ \<times> int) list" where
  \<comment> \<open>The writes of all columns of a chunk, in the order of \<open>loopChunk\<close>.\<close>
  "chunk_writes env n xb zb yb =
     concat (map (\<lambda>i. concat (map (\<lambda>zi. column_writes env (zi + xb) (i + zb) yb) [0..n - 1]))
       [0..n - 1])"

definition apply_writes :: "(XYZ \<times> int) list \<Rightarrow> CoordinateMap3D \<Rightarrow> CoordinateMap3D" where
  \<comment> \<open>A sequence of \<open>set\<close> calls on the voxel map.\<close>
  "apply_writes ws m = fold (\<lambda>kv acc. acc(fst kv \<mapsto> snd kv)) ws m"

definition same_index :: "gen_state \<Rightarrow> gen_state \<Rightarrow> bool" where
  \<comment> \<open>Two generation states with the same tree and position list.\<close>
  "same_index st1 st2 = (snd st1 = snd st2)"

section \<open>Example inputs\<close>

definition cube_faces :: "face list" where
  \<comment> \<open>A face table of the shape the data model describes: six directions, each with four
      corners and a UV row. The table of voxel-block is not part of the sources; this
      one is used in the examples only.\<close>
  "cube_faces =
     [\<lparr>uvRow = 0, dir = (- 1, 0, 0), corners =
         [\<lparr>pos = (0, 1, 0), uv = (0, 1)\<rparr>, \<lparr>pos = (0, 0, 0), uv = (0, 0)\<rparr>,
          \<lparr>pos = (0, 1, 1), uv = (1, 1)\<rparr>, \<lparr>pos = (0, 0, 1), uv = (1, 0)\<rparr>]\<rparr>,
      \<lparr>uvRow = 0, dir = (1, 0, 0), corners =
         [\<lparr>pos = (1, 1, 1), uv = (0, 1)\<rparr>, \<lparr>pos = (1, 0, 1), uv = (0, 0)\<rparr>,
          \<lparr>pos = (1, 1, 0), uv = (1, 1)\<rparr>, \<lparr>pos = (1, 0, 0), uv = (1, 0)\<rparr>]\<rparr>,
      \<lparr>uvRow = 1, dir = (0, - 1, 0), corners =
         [\<lparr>pos = (1, 0, 1), uv = (1, 0)\<rparr>, \<lparr>pos = (0, 0, 1), uv = (0, 0)\<rparr>,
          \<lparr>pos = (1, 0, 0), uv = (1, 1)\<rparr>, \<lparr>pos = (0, 0, 0), uv = (0, 1)\<rparr>]\<rparr>,
      \<lparr>uvRow = 2, dir = (0, 1, 0), corners =
         [\<lparr>pos = (0, 1, 1), uv = (1, 1)\<rparr>, \<lparr>pos = (1, 1, 1), uv = (0, 1)\<rparr>,
          \<lparr>pos = (0, 1, 0), uv = (1, 0)\<rparr>, \<lparr>pos = (1, 1, 0), uv = (0, 0)\<rparr>]\<rparr>,
      \<lparr>uvRow = 0, dir = (0, 0, - 1), corners =
         [\<lparr>pos = (1, 0, 0), uv = (0, 0)\<rparr>, \<lparr>pos = (0, 0, 0), uv = (1, 0)\<rparr>,
          \<lparr>pos = (1, 1, 0), uv = (0, 1)\<rparr>, \<lparr>pos = (0, 1, 0), uv = (1, 1)\<rparr>]\<rparr>,
      \<lparr>uvRow = 0, dir = (0, 0, 1), corners =
         [\<lparr>pos = (0, 0, 1), uv = (0, 0)\<rparr>, \<lparr>pos = (1, 0, 1), uv = (1, 0)\<rparr>,
          \<lparr>pos = (0, 1, 1), uv = (0, 1)\<rparr>, \<lparr>pos = (1, 1, 1), uv = (1, 1)\<rparr>]\<rparr>]"

definition grass_over_stone :: "int \<Rightarrow> (int \<times> int) list" where
  \<comment> \<open>A column-fill policy for the examples: tile 0 at the top level of the chunk's
      vertical span and tile 1 below it.\<close>
  "grass_over_stone yb = [(0, yb + 1), (1, yb)]"

definition example_env :: collaborators where
  "example_env =
     \<lparr>getCoord = (\<lambda>xa ya. 0), loadVoxelChunk = grass_over_stone,
      faces = cube_faces, capacity = 8\<rparr>"

definition example_opts :: VoxelContructorOpts where
  \<comment> \<open>Chunk size 1, an empty scene, an atlas of 16 pixel tiles on a 256 by 64 image.\<close>
  "example_opts =
     \<lparr>chunkSize = 1, opt_scene = [],
      opt_uv = \<lparr>uv_size = 16, imageWidth = 256, imageHeight = 64\<rparr>\<rparr>"

definition example_world :: VoxelWorld where
  "example_world = VoxelWorld_new example_opts 0"

definition two_voxels :: VoxelWorld where
  \<comment> \<open>The example world with a grass voxel at \<open>(0,0,0)\<close> and a stone voxel below it.\<close>
  "two_voxels =
     example_world\<lparr>voxelFaceMap := [(0, 0, 0) \<mapsto> 0, (0, - 1, 0) \<mapsto> 1]\<rparr>"

definition other_world :: VoxelWorld where
  \<comment> \<open>The example world with another scene and another next mesh identity.\<close>
  "other_world = example_world\<lparr>scene := [], next_id := 7\<rparr>"

definition small_tree :: Octree where
  \<comment> \<open>The tree of the chunk at layer -1 with chunk size 1, holding the voxel
      \<open>(0,-1,0)\<close>.\<close>
  "small_tree =
     insert_item 8 (unit_cube (0, - 1, 0))
       (Octree_new \<lparr>x0 = 0, y0 = - 1, z0 = 0, width = 1, height = 1, depth = 1\<rparr>)"

definition spike_noise :: "int \<Rightarrow> int \<Rightarrow> real" where
  \<comment> \<open>A noise field that is 1 at \<open>(1, 0)\<close> and 0 elsewhere.\<close>
  "spike_noise xa ya = (if xa = 1 \<and> ya = 0 then 1 else 0)"

definition example_mesh :: Mesh where
  \<comment> \<open>The mesh of the two stacked voxels.\<close>
  "example_mesh =
     \<lparr>mesh_id = 0,
      geometry = mesh_buffers example_env two_voxels [(0, 0, 0), (0, - 1, 0)],
      position = (- (1 / 10), 0, - (1 / 10))\<rparr>"

definition example_chunk :: LoadedChunk where
  \<comment> \<open>What loading the chunk \<open>(0,0)\<close> of the example world returns.\<close>
  "example_chunk = \<lparr>tree = small_tree, blocks = [example_mesh]\<rparr>"

definition loaded_world :: VoxelWorld where
  \<comment> \<open>The example world after the chunk \<open>(0,0)\<close> was loaded.\<close>
  "loaded_world = two_voxels\<lparr>scene := [AmbientLight, MeshObject example_mesh], next_id := 1\<rparr>"

definition example_imports :: render_imports where
  \<comment> \<open>The largest-multiple reading of \<open>floorMultiple\<close> and a chunk size of 8.\<close>
  "example_imports = \<lparr>floorMultiple = floor_to_multiple, main_CHUNK_SIZE = 8\<rparr>"

definition loaded_state :: game_state where
  \<comment> \<open>The chunk \<open>(0,0)\<close> is loaded, the viewer stands in the chunk \<open>(3,3)\<close>, the radius is 1 and the tick counter has run down.\<close>
  "loaded_state =
     \<lparr>world = loaded_world, octrees = Some [((0, 0), example_chunk)],
      camera_x = 24, camera_z = 24, counter = 0, renderDistance = 1, console_clears = 0\<rparr>"

definition near_state :: game_state where
  \<comment> \<open>The same with the viewer in the chunk \<open>(1,1)\<close>.\<close>
  "near_state = loaded_state\<lparr>camera_x := 8, camera_z := 8\<rparr>"

section \<open>The mesher: what one face pushes\<close>

lemma push_corners_positions:
  "length (positions (push_corners w tv f p cs b)) = length (positions b) + 3 * length cs"
  by (induction cs arbitrary: b) (auto split: prod.splits)

lemma push_corners_normals:
  "length (normals (push_corners w tv f p cs b)) = length (normals b) + 3 * length cs"
  by (induction cs arbitrary: b) (auto split: prod.splits)

lemma push_corners_uvs:
  "uvs (push_corners w tv f p cs b) = uvs b @ concat (map (corner_uv w tv (uvRow f)) cs)"
  by (induction cs arbitrary: b) (auto split: prod.splits)

lemma push_corners_indices:
  "indices (push_corners w tv f p cs b) = indices b"
  by (induction cs arbitrary: b) (auto split: prod.splits)

lemma make_face_present:
  "neighbor w p f = Some t \<Longrightarrow> make_face w tv p f b = b"
  by (simp add: make_face_def)

lemma make_face_absent_lengths:
  assumes "neighbor w p f = None"
  shows "length (positions (make_face w tv p f b)) = length (positions b) + 3 * length (corners f)"
    and "length (normals (make_face w tv p f b)) = length (normals b) + 3 * length (corners f)"
    and "length (uvs (make_face w tv p f b)) = length (uvs b) + 2 * length (corners f)"
    and "length (indices (make_face w tv p f b)) = length (indices b) + 6"
  using assms
  by (simp_all add: make_face_def Let_def push_corners_positions push_corners_normals
      push_corners_uvs push_corners_indices corner_uv_def length_concat comp_def sum_list_triv)

lemma faces_loop_lengths:
  assumes "list_all (\<lambda>f. length (corners f) = 4) fs"
  shows "length (positions (foldl (\<lambda>acc f. make_face w tv p f acc) b fs))
           = length (positions b) + 12 * length (filter (\<lambda>f. neighbor w p f = None) fs)
       \<and> length (normals (foldl (\<lambda>acc f. make_face w tv p f acc) b fs))
           = length (normals b) + 12 * length (filter (\<lambda>f. neighbor w p f = None) fs)
       \<and> length (uvs (foldl (\<lambda>acc f. make_face w tv p f acc) b fs))
           = length (uvs b) + 8 * length (filter (\<lambda>f. neighbor w p f = None) fs)
       \<and> length (indices (foldl (\<lambda>acc f. make_face w tv p f acc) b fs))
           = length (indices b) + 6 * length (filter (\<lambda>f. neighbor w p f = None) fs)"
  using assms
proof (induction fs arbitrary: b)
  case Nil
  then show ?case by simp
next
  case (Cons f fs)
  show ?case
  proof (cases "neighbor w p f")
    case None
    with Cons show ?thesis
      by (simp add: make_face_absent_lengths)
  next
    case (Some t)
    with Cons show ?thesis
      by (simp add: make_face_present)
  qed
qed

lemma findFaces_lengths:
  assumes "list_all (\<lambda>f. length (corners f) = 4) (faces env)"
  shows "length (positions (findFaces env w p b))
           = length (positions b) + 12 * length (exposed_faces env w p)
       \<and> length (normals (findFaces env w p b))
           = length (normals b) + 12 * length (exposed_faces env w p)
       \<and> length (uvs (findFaces env w p b))
           = length (uvs b) + 8 * length (exposed_faces env w p)
       \<and> length (indices (findFaces env w p b))
           = length (indices b) + 6 * length (exposed_faces env w p)"
  using faces_loop_lengths [OF assms]
  by (simp add: findFaces_def exposed_faces_def split: prod.splits)

lemma mesh_loop_lengths:
  assumes "list_all (\<lambda>f. length (corners f) = 4) (faces env)"
  shows "length (positions (foldl (\<lambda>b p. findFaces env w p b) b0 ps))
           = length (positions b0) + 12 * exposed_count env w ps
       \<and> length (normals (foldl (\<lambda>b p. findFaces env w p b) b0 ps))
           = length (normals b0) + 12 * exposed_count env w ps
       \<and> length (uvs (foldl (\<lambda>b p. findFaces env w p b) b0 ps))
           = length (uvs b0) + 8 * exposed_count env w ps
       \<and> length (indices (foldl (\<lambda>b p. findFaces env w p b) b0 ps))
           = length (indices b0) + 6 * exposed_count env w ps"
proof (induction ps arbitrary: b0)
  case Nil
  then show ?case by (simp add: exposed_count_def)
next
  case (Cons p ps)
  show ?case
    using Cons.IH [of "findFaces env w p b0"] findFaces_lengths [OF assms, of w p b0]
    by (simp add: exposed_count_def)
qed

section \<open>Loops and what chunk generation keeps\<close>

lemma faces_loop_uvs:
  "uvs (foldl (\<lambda>acc f. make_face w tv p f acc) b fs)
     = uvs b @ concat (map (\<lambda>f. concat (map (corner_uv w tv (uvRow f)) (corners f)))
                         (filter (\<lambda>f. neighbor w p f = None) fs))"
proof (induction fs arbitrary: b)
  case Nil
  then show ?case by simp
next
  case (Cons f fs)
  show ?case
  proof (cases "neighbor w p f")
    case None
    then have "uvs (make_face w tv p f b)
        = uvs b @ concat (map (corner_uv w tv (uvRow f)) (corners f))"
      by (simp add: make_face_def Let_def push_corners_uvs)
    with None Cons show ?thesis
      by simp
  next
    case (Some t)
    with Cons show ?thesis
      by (simp add: make_face_present)
  qed
qed

lemma corner_uv_tile:
  "concat (map (corner_uv w (Some tileId) (uvRow f)) (corners f)) = face_uvs w tileId f"
  unfolding face_uvs_def
  by (rule arg_cong [where f = concat]) (simp add: corner_uv_def)

lemma findFaces_uvs:
  assumes "voxelFaceMap w p = Some tileId"
  shows "uvs (findFaces env w p b)
     = uvs b @ concat (map (face_uvs w tileId) (exposed_faces env w p))"
  using assms
  by (cases p)
     (simp add: findFaces_def CoordinateMap3D_get_def faces_loop_uvs corner_uv_tile
        exposed_faces_def)

lemma foldl_invariant:
  assumes "\<And>s x. P s \<Longrightarrow> P (f s x)" and "P s"
  shows "P (foldl f s xs)"
  using assms(2) by (induction xs arbitrary: s) (simp_all add: assms(1))

lemma loopChunk_invariant:
  assumes "\<And>xc zc s. P s \<Longrightarrow> P (f xc zc s)" and "P s"
  shows "P (loopChunk n xb yb f s)"
proof -
  have inner: "P (fold (\<lambda>zi. f (zi + xb) (i + yb)) zs s')" if "P s'" for i zs s'
    using that by (induction zs arbitrary: s') (simp_all add: assms(1))
  have "P (fold (\<lambda>i. fold (\<lambda>zi. f (zi + xb) (i + yb)) zs) is s)" for zs "is"
    using assms(2) by (induction "is" arbitrary: s) (simp_all add: inner)
  then show ?thesis
    by (simp add: loopChunk_def)
qed

lemma foldl_related:
  assumes "\<And>a b x. R a b \<Longrightarrow> R (f a x) (g b x)" and "R a b"
  shows "R (foldl f a xs) (foldl g b xs)"
  using assms(2) by (induction xs arbitrary: a b) (simp_all add: assms(1))

lemma fold_related:
  assumes "\<And>a b x. R a b \<Longrightarrow> R (f x a) (g x b)" and "R a b"
  shows "R (fold f xs a) (fold g xs b)"
  using assms(2) by (induction xs arbitrary: a b) (simp_all add: assms(1))

lemma loopChunk_related:
  assumes "\<And>xc zc a b. R a b \<Longrightarrow> R (f xc zc a) (g xc zc b)" and "R a b"
  shows "R (loopChunk n xb yb f a) (loopChunk n xb yb g b)"
proof -
  have inner: "R (fold (\<lambda>zi. f (zi + xb) (i + yb)) zs a') (fold (\<lambda>zi. g (zi + xb) (i + yb)) zs b')"
    if "R a' b'" for i zs a' b'
    using that by (induction zs arbitrary: a' b') (simp_all add: assms(1))
  have "R (fold (\<lambda>i. fold (\<lambda>zi. f (zi + xb) (i + yb)) zs) is a)
          (fold (\<lambda>i. fold (\<lambda>zi. g (zi + xb) (i + yb)) zs) is b)" for zs "is"
    using assms(2) by (induction "is" arbitrary: a b) (simp_all add: inner)
  then show ?thesis
    by (simp add: loopChunk_def)
qed

lemma addBlock_frame: "frame_of w st \<Longrightarrow> frame_of w (addBlock cap xc zc st call)"
  by (cases st; cases call) (simp add: frame_of_def addBlock_def Let_def)

lemma loadVoxel_frame: "frame_of w st \<Longrightarrow> frame_of w (loadVoxel env xc zc yb st)"
  unfolding loadVoxel_def Let_def
  using addBlock_frame by (rule foldl_invariant)

lemma generate_frame: "frame_of w (generate env w chunkX chunkZ chunkY)"
proof -
  have "frame_of w (w, t, [])" for t
    by (simp add: frame_of_def)
  then show ?thesis
    unfolding generate_def Let_def
    using loadVoxel_frame by (rule loopChunk_invariant [rotated])
qed

lemma addBlock_listed: "listed_in_map st \<Longrightarrow> listed_in_map (addBlock cap xc zc st call)"
  by (cases st; cases call)
     (auto simp add: listed_in_map_def addBlock_def CoordinateMap3D_set_def list_all_iff Let_def)

lemma loadVoxel_listed: "listed_in_map st \<Longrightarrow> listed_in_map (loadVoxel env xc zc yb st)"
  unfolding loadVoxel_def Let_def
  using addBlock_listed by (rule foldl_invariant)

lemma generate_listed: "listed_in_map (generate env w chunkX chunkZ chunkY)"
proof -
  have "listed_in_map (w, t, [])" for t
    by (simp add: listed_in_map_def)
  then show ?thesis
    unfolding generate_def Let_def
    using loadVoxel_listed by (rule loopChunk_invariant [rotated])
qed

lemma loadChunk_world:
  "snd (loadChunk env w cx cz cy) =
     (fst (generate env w cx cz cy))
       \<lparr>scene := scene w @ [MeshObject
           \<lparr>mesh_id = next_id w,
            geometry = mesh_buffers env (fst (generate env w cx cz cy))
                         (snd (snd (generate env w cx cz cy))),
            position = (- (1 / 10), 0, - (1 / 10))\<rparr>],
        next_id := Suc (next_id w)\<rparr>"
proof -
  obtain w1 t ps where g: "generate env w cx cz cy = (w1, t, ps)"
    by (cases "generate env w cx cz cy")
  with generate_frame [of w env cx cz cy] show ?thesis
    by (simp add: loadChunk_def Let_def frame_of_def)
qed

lemma loadChunk_chunk:
  "fst (loadChunk env w cx cz cy) =
     \<lparr>tree = fst (snd (generate env w cx cz cy)),
      blocks = [\<lparr>mesh_id = next_id w,
            geometry = mesh_buffers env (fst (generate env w cx cz cy))
                         (snd (snd (generate env w cx cz cy))),
            position = (- (1 / 10), 0, - (1 / 10))\<rparr>]\<rparr>"
proof -
  obtain w1 t ps where g: "generate env w cx cz cy = (w1, t, ps)"
    by (cases "generate env w cx cz cy")
  with generate_frame [of w env cx cz cy] show ?thesis
    by (simp add: loadChunk_def Let_def frame_of_def)
qed

lemma loadChunk_keeps_ratios:
  "tileWidthRatio (snd (loadChunk env w cx cz cy)) = tileWidthRatio w
   \<and> tileHeightRatio (snd (loadChunk env w cx cz cy)) = tileHeightRatio w
   \<and> CHUNK_SIZE (snd (loadChunk env w cx cz cy)) = CHUNK_SIZE w"
  using generate_frame [of w env cx cz cy]
  by (simp add: loadChunk_world frame_of_def)

section \<open>The mesh of a chunk\<close>

text \<open>
  Claim C1. For every voxel position \<open>p\<close> and every face \<open>f\<close> of the table, the loop body
  of \<open>findFaces\<close> pushes one quad (4 vertices: 12 position and 12 normal components and
  8 UV numbers; 2 triangles: 6 indices) when the lookup at \<open>p + dir f\<close> is absent, and
  leaves the four buffers as they are when it is present; so the number of vertices of
  a chunk's mesh is 4 times the number of exposed faces of its voxel list, for every
  voxel list and for the mesh that \<open>loadChunk\<close> returns. Each face of the table has
  four corners.
\<close>

theorem findFaces_quad_iff_neighbor_absent:
  assumes "list_all (\<lambda>f. length (corners f) = 4) (faces env)"
  shows "(\<forall>f \<in> set (faces env). \<forall>tv b.
            (neighbor w p f \<noteq> None \<longrightarrow> make_face w tv p f b = b) \<and>
            length (positions (make_face w tv p f b))
              = length (positions b) + (if neighbor w p f = None then 3 * 4 else 0) \<and>
            length (normals (make_face w tv p f b))
              = length (normals b) + (if neighbor w p f = None then 3 * 4 else 0) \<and>
            length (uvs (make_face w tv p f b))
              = length (uvs b) + (if neighbor w p f = None then 2 * 4 else 0) \<and>
            length (indices (make_face w tv p f b))
              = length (indices b) + (if neighbor w p f = None then 6 else 0))
       \<and> length (positions (mesh_buffers env w ps)) = 3 * (4 * exposed_count env w ps)
       \<and> length (normals (mesh_buffers env w ps)) = 3 * (4 * exposed_count env w ps)
       \<and> length (uvs (mesh_buffers env w ps)) = 2 * (4 * exposed_count env w ps)
       \<and> length (indices (mesh_buffers env w ps)) = 6 * exposed_count env w ps
       \<and> map (\<lambda>m. length (positions (geometry m))) (blocks (fst (loadChunk env w cx cz cy)))
           = [3 * (4 * exposed_count env (fst (generate env w cx cz cy))
                         (snd (snd (generate env w cx cz cy))))]"
proof -
  have per_face: "\<forall>f \<in> set (faces env). \<forall>tv b.
            (neighbor w p f \<noteq> None \<longrightarrow> make_face w tv p f b = b) \<and>
            length (positions (make_face w tv p f b))
              = length (positions b) + (if neighbor w p f = None then 3 * 4 else 0) \<and>
            length (normals (make_face w tv p f b))
              = length (normals b) + (if neighbor w p f = None then 3 * 4 else 0) \<and>
            length (uvs (make_face w tv p f b))
              = length (uvs b) + (if neighbor w p f = None then 2 * 4 else 0) \<and>
            length (indices (make_face w tv p f b))
              = length (indices b) + (if neighbor w p f = None then 6 else 0)"
  proof (intro ballI allI)
    fix f tv b
    assume "f \<in> set (faces env)"
    with assms have four: "length (corners f) = 4"
      by (simp add: list_all_iff)
    show "(neighbor w p f \<noteq> None \<longrightarrow> make_face w tv p f b = b) \<and>
            length (positions (make_face w tv p f b))
              = length (positions b) + (if neighbor w p f = None then 3 * 4 else 0) \<and>
            length (normals (make_face w tv p f b))
              = length (normals b) + (if neighbor w p f = None then 3 * 4 else 0) \<and>
            length (uvs (make_face w tv p f b))
              = length (uvs b) + (if neighbor w p f = None then 2 * 4 else 0) \<and>
            length (indices (make_face w tv p f b))
              = length (indices b) + (if neighbor w p f = None then 6 else 0)"
    proof (cases "neighbor w p f")
      case None
      then show ?thesis
        by (simp add: make_face_absent_lengths four)
    next
      case (Some t)
      then show ?thesis
        by (simp add: make_face_present)
    qed
  qed
  have total: "length (positions (mesh_buffers env w ps)) = 3 * (4 * exposed_count env w ps)
       \<and> length (normals (mesh_buffers env w ps)) = 3 * (4 * exposed_count env w ps)
       \<and> length (uvs (mesh_buffers env w ps)) = 2 * (4 * exposed_count env w ps)
       \<and> length (indices (mesh_buffers env w ps)) = 6 * exposed_count env w ps"
    using mesh_loop_lengths [OF assms, of w empty_buffers ps]
    by (simp add: mesh_buffers_def empty_buffers_def)
  have chunk: "map (\<lambda>m. length (positions (geometry m))) (blocks (fst (loadChunk env w cx cz cy)))
           = [3 * (4 * exposed_count env (fst (generate env w cx cz cy))
                         (snd (snd (generate env w cx cz cy))))]"
    using mesh_loop_lengths [OF assms, of "fst (generate env w cx cz cy)" empty_buffers
        "snd (snd (generate env w cx cz cy))"]
    by (simp add: loadChunk_chunk mesh_buffers_def empty_buffers_def)
  from per_face total chunk show ?thesis
    by blast
qed

text \<open>
  The example of two stacked voxels: the two touching faces are culled, ten faces
  remain, and the mesh has 40 vertices and 20 triangles.
\<close>

theorem findFaces_quad_iff_neighbor_absent_witness:
  "list_all (\<lambda>f. length (corners f) = 4) (faces example_env)
   \<and> exposed_count example_env two_voxels [(0, 0, 0), (0, - 1, 0)] = 10
   \<and> length (positions (mesh_buffers example_env two_voxels [(0, 0, 0), (0, - 1, 0)])) = 3 * 40
   \<and> length (indices (mesh_buffers example_env two_voxels [(0, 0, 0), (0, - 1, 0)])) = 3 * 20"
proof -
  have table: "list_all (\<lambda>f. length (corners f) = 4) (faces example_env)"
    by (simp add: example_env_def cube_faces_def)
  have ten: "exposed_count example_env two_voxels [(0, 0, 0), (0, - 1, 0)] = 10"
    by (simp add: exposed_count_def exposed_faces_def example_env_def cube_faces_def
        neighbor_def two_voxels_def CoordinateMap3D_get_def)
  show ?thesis
    using table ten
      findFaces_quad_iff_neighbor_absent [OF table, of two_voxels "(0, 0, 0)"
        "[(0, 0, 0), (0, - 1, 0)]"]
    by simp
qed

section \<open>The UV coordinates of a vertex\<close>

text \<open>
  Claim C2. For a voxel whose stored tile is \<open>tileId\<close>, the two UV numbers pushed for
  each corner \<open>(cornerU, cornerV)\<close> of each emitted face are
  \<open>(tileId + cornerU) * tileWidthRatio\<close> and \<open>1 - (uvRow + 1 - cornerV) * tileHeightRatio\<close>;
  every position that a chunk hands to the mesher has a stored tile; the constructor
  sets the two ratios to the tile size divided by the image width and height (the
  image dimensions are not zero), and \<open>loadChunk\<close> does not change them.
\<close>

theorem uv_from_tile_and_atlas_ratios:
  assumes "imageWidth (opt_uv opts) \<noteq> 0" and "imageHeight (opt_uv opts) \<noteq> 0"
  shows "tileWidthRatio (VoxelWorld_new opts fresh) * imageWidth (opt_uv opts) = uv_size (opt_uv opts)
       \<and> tileHeightRatio (VoxelWorld_new opts fresh) * imageHeight (opt_uv opts) = uv_size (opt_uv opts)
       \<and> tileWidthRatio (VoxelWorld_new opts fresh) = uv_size (opt_uv opts) / imageWidth (opt_uv opts)
       \<and> tileHeightRatio (VoxelWorld_new opts fresh) = uv_size (opt_uv opts) / imageHeight (opt_uv opts)
       \<and> tileWidthRatio (snd (loadChunk env w cx cz cy)) = tileWidthRatio w
       \<and> tileHeightRatio (snd (loadChunk env w cx cz cy)) = tileHeightRatio w
       \<and> list_all (\<lambda>p. voxelFaceMap (fst (generate env w cx cz cy)) p \<noteq> None)
            (snd (snd (generate env w cx cz cy)))
       \<and> (\<forall>p tileId b. voxelFaceMap w p = Some tileId \<longrightarrow>
            uvs (findFaces env w p b)
              = uvs b @ concat (map (\<lambda>f. concat (map (\<lambda>c.
                   [Num (real_of_int (tileId + fst (uv c)) * tileWidthRatio w),
                    Num (1 - real_of_int (uvRow f + 1 - snd (uv c)) * tileHeightRatio w)])
                   (corners f))) (exposed_faces env w p)))"
proof -
  have ctor: "tileWidthRatio (VoxelWorld_new opts fresh) = uv_size (opt_uv opts) / imageWidth (opt_uv opts)"
    "tileHeightRatio (VoxelWorld_new opts fresh) = uv_size (opt_uv opts) / imageHeight (opt_uv opts)"
    by (simp_all add: VoxelWorld_new_def)
  have inverse: "tileWidthRatio (VoxelWorld_new opts fresh) * imageWidth (opt_uv opts) = uv_size (opt_uv opts)"
    "tileHeightRatio (VoxelWorld_new opts fresh) * imageHeight (opt_uv opts) = uv_size (opt_uv opts)"
    using assms by (simp_all add: VoxelWorld_new_def)
  have listed: "list_all (\<lambda>p. voxelFaceMap (fst (generate env w cx cz cy)) p \<noteq> None)
            (snd (snd (generate env w cx cz cy)))"
    using generate_listed [of env w cx cz cy] by (simp add: listed_in_map_def)
  have pushed: "\<forall>p tileId b. voxelFaceMap w p = Some tileId \<longrightarrow>
            uvs (findFaces env w p b)
              = uvs b @ concat (map (\<lambda>f. concat (map (\<lambda>c.
                   [Num (real_of_int (tileId + fst (uv c)) * tileWidthRatio w),
                    Num (1 - real_of_int (uvRow f + 1 - snd (uv c)) * tileHeightRatio w)])
                   (corners f))) (exposed_faces env w p))"
  proof (intro allI impI)
    fix p tileId b
    assume "voxelFaceMap w p = Some tileId"
    from findFaces_uvs [OF this, of env b]
    show "uvs (findFaces env w p b)
              = uvs b @ concat (map (\<lambda>f. concat (map (\<lambda>c.
                   [Num (real_of_int (tileId + fst (uv c)) * tileWidthRatio w),
                    Num (1 - real_of_int (uvRow f + 1 - snd (uv c)) * tileHeightRatio w)])
                   (corners f))) (exposed_faces env w p))"
      unfolding face_uvs_def .
  qed
  from ctor inverse listed pushed loadChunk_keeps_ratios [of env w cx cz cy]
  show ?thesis
    by blast
qed

theorem uv_from_tile_and_atlas_ratios_witness:
  "imageWidth (opt_uv example_opts) \<noteq> 0 \<and> imageHeight (opt_uv example_opts) \<noteq> 0
   \<and> tileWidthRatio (VoxelWorld_new example_opts 0) = 1 / 16
   \<and> tileHeightRatio (VoxelWorld_new example_opts 0) = 1 / 4
   \<and> voxelFaceMap two_voxels (0, 0, 0) = Some 0
   \<and> uvs (findFaces example_env two_voxels (0, 0, 0) empty_buffers) =
       [Num 0, Num 1, Num 0, Num (3 / 4), Num (1 / 16), Num 1, Num (1 / 16), Num (3 / 4),
        Num 0, Num 1, Num 0, Num (3 / 4), Num (1 / 16), Num 1, Num (1 / 16), Num (3 / 4),
        Num (1 / 16), Num (1 / 2), Num 0, Num (1 / 2), Num (1 / 16), Num (1 / 4), Num 0,
        Num (1 / 4),
        Num 0, Num (3 / 4), Num (1 / 16), Num (3 / 4), Num 0, Num 1, Num (1 / 16), Num 1,
        Num 0, Num (3 / 4), Num (1 / 16), Num (3 / 4), Num 0, Num 1, Num (1 / 16), Num 1]"
  using uv_from_tile_and_atlas_ratios [where opts = example_opts and env = example_env
      and w = two_voxels and fresh = 0]
  by (simp add: two_voxels_def example_world_def VoxelWorld_new_def example_opts_def
      exposed_faces_def example_env_def cube_faces_def neighbor_def CoordinateMap3D_get_def
      empty_buffers_def)

section \<open>Determinism of chunk loading\<close>

lemma addBlock_same:
  "same_voxels st1 st2 \<Longrightarrow> same_voxels (addBlock cap xc zc st1 call) (addBlock cap xc zc st2 call)"
  by (cases st1; cases st2; cases call) (simp add: same_voxels_def addBlock_def Let_def)

lemma loadVoxel_same:
  "same_voxels st1 st2 \<Longrightarrow> same_voxels (loadVoxel env xc zc yb st1) (loadVoxel env xc zc yb st2)"
  unfolding loadVoxel_def Let_def
  using addBlock_same by (rule foldl_related)

lemma generate_same:
  assumes "CHUNK_SIZE w1 = CHUNK_SIZE w2" and "voxelFaceMap w1 = voxelFaceMap w2"
  shows "same_voxels (generate env w1 cx cz cy) (generate env w2 cx cz cy)"
proof -
  have "same_voxels (w1, t, []) (w2, t, [])" for t
    using assms(2) by (simp add: same_voxels_def)
  then show ?thesis
    unfolding generate_def Let_def assms(1)
    using loadVoxel_same by (rule loopChunk_related [rotated])
qed

lemma push_corners_cong:
  assumes "tileWidthRatio w1 = tileWidthRatio w2" and "tileHeightRatio w1 = tileHeightRatio w2"
  shows "push_corners w1 tv f p cs b = push_corners w2 tv f p cs b"
proof -
  have uv_eq: "corner_uv w1 tv row c = corner_uv w2 tv row c" for row c
    by (cases tv) (simp_all add: corner_uv_def assms)
  show ?thesis
    by (induction cs arbitrary: b) (auto simp add: uv_eq split: prod.splits)
qed

lemma findFaces_cong:
  assumes "voxelFaceMap w1 = voxelFaceMap w2"
    and "tileWidthRatio w1 = tileWidthRatio w2" and "tileHeightRatio w1 = tileHeightRatio w2"
  shows "findFaces env w1 p b = findFaces env w2 p b"
proof -
  have "make_face w1 tv p f acc = make_face w2 tv p f acc" for tv f acc
    by (simp add: make_face_def neighbor_def assms(1) push_corners_cong [OF assms(2,3)]
        cong: option.case_cong)
  then show ?thesis
    by (simp add: findFaces_def assms(1))
qed

lemma mesh_buffers_cong:
  assumes "voxelFaceMap w1 = voxelFaceMap w2"
    and "tileWidthRatio w1 = tileWidthRatio w2" and "tileHeightRatio w1 = tileHeightRatio w2"
  shows "mesh_buffers env w1 ps = mesh_buffers env w2 ps"
  using findFaces_cong [OF assms] by (simp add: mesh_buffers_def)

text \<open>
  Claim C4. Two runs of \<open>loadChunk\<close> on the same chunk coordinate, from worlds that
  agree on the chunk size, the voxel map and the two atlas ratios, produce the same
  voxel list, the same voxel map, the same tree and the same mesh buffers (positions,
  normals, UVs and indices are the four fields of the geometry). The two worlds may
  differ in their scene and in the identity of the next mesh; worlds that are equal
  agree on everything.
\<close>

theorem loadChunk_deterministic:
  assumes "CHUNK_SIZE w1 = CHUNK_SIZE w2" and "voxelFaceMap w1 = voxelFaceMap w2"
    and "tileWidthRatio w1 = tileWidthRatio w2" and "tileHeightRatio w1 = tileHeightRatio w2"
  shows "snd (snd (generate env w1 cx cz cy)) = snd (snd (generate env w2 cx cz cy))
       \<and> voxelFaceMap (snd (loadChunk env w1 cx cz cy)) = voxelFaceMap (snd (loadChunk env w2 cx cz cy))
       \<and> tree (fst (loadChunk env w1 cx cz cy)) = tree (fst (loadChunk env w2 cx cz cy))
       \<and> map geometry (blocks (fst (loadChunk env w1 cx cz cy)))
           = map geometry (blocks (fst (loadChunk env w2 cx cz cy)))"
proof -
  let ?g1 = "generate env w1 cx cz cy" and ?g2 = "generate env w2 cx cz cy"
  have same: "voxelFaceMap (fst ?g1) = voxelFaceMap (fst ?g2)" "snd ?g1 = snd ?g2"
    using generate_same [OF assms(1,2), of env cx cz cy] by (simp_all add: same_voxels_def)
  have ratios: "tileWidthRatio (fst ?g1) = tileWidthRatio (fst ?g2)"
    "tileHeightRatio (fst ?g1) = tileHeightRatio (fst ?g2)"
    using generate_frame [of w1 env cx cz cy] generate_frame [of w2 env cx cz cy] assms(3,4)
    by (simp_all add: frame_of_def)
  have bufs: "mesh_buffers env (fst ?g1) (snd (snd ?g1)) = mesh_buffers env (fst ?g2) (snd (snd ?g2))"
    using mesh_buffers_cong [OF same(1) ratios] same(2) by simp
  show ?thesis
    using same bufs by (simp add: loadChunk_world loadChunk_chunk)
qed

lemma generate_example: "generate example_env example_world 0 0 None
   = (example_world\<lparr>voxelFaceMap := [(0, 0, 0) \<mapsto> 0, (0, - 1, 0) \<mapsto> 1]\<rparr>,
      Octree \<lparr>x0 = 0, y0 = - 1, z0 = 0, width = 1, height = 1, depth = 1\<rparr>
        [\<lparr>x0 = 0, y0 = - 1, z0 = 0, width = 1, height = 1, depth = 1\<rparr>] [],
      [(0, 0, 0), (0, - 1, 0)])"
  by (simp add: generate_def example_env_def example_world_def VoxelWorld_new_def example_opts_def
      default_chunkY_def loopChunk_def loadVoxel_def grass_over_stone_def addBlock_def
      addBlockToTree_def Octree_new_def overlaps_def CoordinateMap3D_set_def Let_def)

theorem loadChunk_deterministic_witness:
  "CHUNK_SIZE example_world = CHUNK_SIZE other_world
   \<and> voxelFaceMap example_world = voxelFaceMap other_world
   \<and> tileWidthRatio example_world = tileWidthRatio other_world
   \<and> tileHeightRatio example_world = tileHeightRatio other_world
   \<and> scene example_world \<noteq> scene other_world
   \<and> snd (snd (generate example_env other_world 0 0 None)) = [(0, 0, 0), (0, - 1, 0)]
   \<and> map geometry (blocks (fst (loadChunk example_env example_world 0 0 None)))
       = map geometry (blocks (fst (loadChunk example_env other_world 0 0 None)))"
proof -
  have agree: "CHUNK_SIZE example_world = CHUNK_SIZE other_world"
    "voxelFaceMap example_world = voxelFaceMap other_world"
    "tileWidthRatio example_world = tileWidthRatio other_world"
    "tileHeightRatio example_world = tileHeightRatio other_world"
    by (simp_all add: other_world_def)
  have differ: "scene example_world \<noteq> scene other_world"
    by (simp add: other_world_def example_world_def VoxelWorld_new_def)
  show ?thesis
    using agree differ generate_example
      loadChunk_deterministic [OF agree, of example_env 0 0 None]
    by simp
qed

section \<open>The vertical layer of a chunk\<close>

lemma bounds_insert_item: "bounds (insert_item cap it t) = bounds t"
  by (cases t) (simp add: subdivide_def)

lemma addBlock_tree_box: "tree_box bx st \<Longrightarrow> tree_box bx (addBlock cap xc zc st call)"
  by (cases st; cases call)
     (simp add: tree_box_def addBlock_def addBlockToTree_def bounds_insert_item Let_def)

lemma loadVoxel_tree_box: "tree_box bx st \<Longrightarrow> tree_box bx (loadVoxel env xc zc yb st)"
  unfolding loadVoxel_def Let_def
  using addBlock_tree_box by (rule foldl_invariant)

lemma generate_tree_box:
  "bounds (fst (snd (generate env w cx cz cy)))
     = \<lparr>x0 = real_of_int (cx * CHUNK_SIZE w),
        y0 = real_of_int (default_chunkY cy * CHUNK_SIZE w),
        z0 = real_of_int (cz * CHUNK_SIZE w),
        width = real_of_int (CHUNK_SIZE w), height = real_of_int (CHUNK_SIZE w),
        depth = real_of_int (CHUNK_SIZE w)\<rparr>"
proof -
  have "tree_box bx (w, Octree_new bx, [])" for bx
    by (simp add: tree_box_def Octree_new_def)
  then have "tree_box \<lparr>x0 = real_of_int (cx * CHUNK_SIZE w),
        y0 = real_of_int (default_chunkY cy * CHUNK_SIZE w),
        z0 = real_of_int (cz * CHUNK_SIZE w),
        width = real_of_int (CHUNK_SIZE w), height = real_of_int (CHUNK_SIZE w),
        depth = real_of_int (CHUNK_SIZE w)\<rparr> (generate env w cx cz cy)"
    unfolding generate_def Let_def
    using loadVoxel_tree_box by (rule loopChunk_invariant [rotated])
  then show ?thesis
    by (simp add: tree_box_def)
qed

lemma loadChunk_default:
  "loadChunk env w cx cz cy = loadChunk env w cx cz (Some (default_chunkY cy))"
  by (simp add: loadChunk_def generate_def default_chunkY_def split: option.splits)

text \<open>
  Claim C10. A call of \<open>loadChunk\<close> whose \<open>chunkY\<close> is omitted or is 0 is a call with
  \<open>chunkY = -1\<close>: the tree's box starts at \<open>y = -CHUNK_SIZE\<close> and ends at \<open>y = 0\<close>. For
  every argument the layer used is not 0, so with a chunk size other than 0 no chunk
  is anchored at \<open>y = 0\<close>.
\<close>

theorem loadChunk_layer_zero_is_minus_one:
  "(chunkY = None \<or> chunkY = Some 0 \<longrightarrow>
      loadChunk env w cx cz chunkY = loadChunk env w cx cz (Some (- 1))
      \<and> y0 (bounds (tree (fst (loadChunk env w cx cz chunkY)))) = - real_of_int (CHUNK_SIZE w)
      \<and> y0 (bounds (tree (fst (loadChunk env w cx cz chunkY))))
          + height (bounds (tree (fst (loadChunk env w cx cz chunkY)))) = 0)
   \<and> y0 (bounds (tree (fst (loadChunk env w cx cz chunkY))))
        = real_of_int (default_chunkY chunkY * CHUNK_SIZE w)
   \<and> default_chunkY chunkY \<noteq> 0
   \<and> (CHUNK_SIZE w \<noteq> 0 \<longrightarrow> y0 (bounds (tree (fst (loadChunk env w cx cz chunkY)))) \<noteq> 0)"
proof -
  have box: "bounds (tree (fst (loadChunk env w cx cz chunkY)))
     = \<lparr>x0 = real_of_int (cx * CHUNK_SIZE w),
        y0 = real_of_int (default_chunkY chunkY * CHUNK_SIZE w),
        z0 = real_of_int (cz * CHUNK_SIZE w),
        width = real_of_int (CHUNK_SIZE w), height = real_of_int (CHUNK_SIZE w),
        depth = real_of_int (CHUNK_SIZE w)\<rparr>"
    by (simp add: loadChunk_chunk generate_tree_box)
  have nz: "default_chunkY chunkY \<noteq> 0"
    by (simp add: default_chunkY_def split: option.splits)
  have dflt: "default_chunkY chunkY = - 1" if "chunkY = None \<or> chunkY = Some 0"
    using that by (auto simp add: default_chunkY_def)
  have same: "loadChunk env w cx cz chunkY = loadChunk env w cx cz (Some (- 1))"
    if "chunkY = None \<or> chunkY = Some 0"
    using loadChunk_default [of env w cx cz chunkY] dflt [OF that] by simp
  show ?thesis
    using box nz dflt same by auto
qed

theorem loadChunk_layer_zero_is_minus_one_witness:
  "(Some 0 = (None :: int option) \<or> Some 0 = Some (0 :: int))
   \<and> CHUNK_SIZE example_world \<noteq> 0
   \<and> loadChunk example_env example_world 0 0 (Some 0)
       = loadChunk example_env example_world 0 0 (Some (- 1))
   \<and> y0 (bounds (tree (fst (loadChunk example_env example_world 0 0 (Some 0))))) = - 1
   \<and> y0 (bounds (tree (fst (loadChunk example_env example_world 0 0 (Some 0))))) \<noteq> 0"
proof -
  have size_one: "CHUNK_SIZE example_world = 1"
    by (simp add: example_world_def VoxelWorld_new_def example_opts_def)
  have omitted: "Some 0 = (None :: int option) \<or> Some 0 = Some (0 :: int)"
    by simp
  have nonzero: "CHUNK_SIZE example_world \<noteq> 0"
    by (simp add: size_one)
  note inst = loadChunk_layer_zero_is_minus_one [of "Some 0" example_env example_world 0 0]
  from inst omitted have same: "loadChunk example_env example_world 0 0 (Some 0)
       = loadChunk example_env example_world 0 0 (Some (- 1))"
    by blast
  from inst omitted have "y0 (bounds (tree (fst (loadChunk example_env example_world 0 0 (Some 0)))))
      = - real_of_int (CHUNK_SIZE example_world)"
    by blast
  then have start: "y0 (bounds (tree (fst (loadChunk example_env example_world 0 0 (Some 0))))) = - 1"
    by (simp add: size_one)
  from inst nonzero
  have not_zero: "y0 (bounds (tree (fst (loadChunk example_env example_world 0 0 (Some 0))))) \<noteq> 0"
    by blast
  from omitted nonzero same start not_zero show ?thesis
    by blast
qed

section \<open>Insertion outside the index's box\<close>

lemma overlaps_inside:
  assumes "contains outer q" and "overlaps q it"
  shows "overlaps it outer"
  using assms by (auto simp add: contains_def overlaps_def)

lemma query_overlaps: "it \<in> set (query q t) \<Longrightarrow> overlaps q it"
proof (induction q t rule: query.induct)
  case (1 q b its kids)
  then show ?case
    by (auto split: if_splits)
qed

lemma insert_item_outside: "\<not> overlaps it (bounds t) \<Longrightarrow> insert_item cap it t = t"
  by (cases t) simp

lemma addBlockToTree_insert: "addBlockToTree cap t p = insert_item cap (unit_cube p) t"
  by (simp add: addBlockToTree_def unit_cube_def split: prod.splits)

text \<open>
  Claim C8. Inserting a unit cube that lies fully outside the index's box returns the
  index as it was (the insertion is a total function with no error result, and every
  item inserted before is still there), and no range query whose box lies within the
  index's box returns that cube, on any tree.
\<close>

theorem insert_outside_bounds_is_ignored:
  assumes "\<not> overlaps (unit_cube p) (bounds t)"
  shows "addBlockToTree cap t p = t
       \<and> insert_item cap (unit_cube p) t = t
       \<and> (\<forall>q t'. contains (bounds t) q \<longrightarrow> unit_cube p \<notin> set (query q t'))"
proof -
  have "unit_cube p \<notin> set (query q t')" if "contains (bounds t) q" for q t'
  proof
    assume "unit_cube p \<in> set (query q t')"
    then have "overlaps q (unit_cube p)"
      by (rule query_overlaps)
    with that have "overlaps (unit_cube p) (bounds t)"
      by (rule overlaps_inside)
    with assms show False
      by simp
  qed
  with insert_item_outside [OF assms] show ?thesis
    by (simp add: addBlockToTree_insert)
qed

text \<open>
  The grass voxel \<open>(0,0,0)\<close> of the example lies one unit above the box of the chunk at
  layer -1: it is not indexed, and the stone voxel stays.
\<close>

theorem insert_outside_bounds_is_ignored_witness:
  "\<not> overlaps (unit_cube (0, 0, 0)) (bounds small_tree)
   \<and> addBlockToTree 8 small_tree (0, 0, 0) = small_tree
   \<and> contains (bounds small_tree) \<lparr>x0 = 0, y0 = - 1, z0 = 0, width = 1, height = 1, depth = 1\<rparr>
   \<and> query \<lparr>x0 = 0, y0 = - 1, z0 = 0, width = 1, height = 1, depth = 1\<rparr>
        (addBlockToTree 8 small_tree (0, 0, 0)) = [unit_cube (0, - 1, 0)]"
  using insert_outside_bounds_is_ignored [of "(0, 0, 0)" small_tree 8]
  by (simp add: small_tree_def unit_cube_def Octree_new_def overlaps_def contains_def)

section \<open>The elevation of a column\<close>

lemma Math_round_half: "Math_round (real_of_int k / 2) = (k + 1) div 2"
proof -
  have "real_of_int k / 2 + 1 / 2 = real_of_int (k + 1) / real_of_int 2"
    by (simp add: field_simps)
  then show ?thesis
    unfolding Math_round_def by (simp only: floor_divide_of_int_eq)
qed

text \<open>
  Claim C3, as stated, fails: the elevation of a column is not a rounding of the noise
  value at \<open>(xc, zc)\<close>. With the noise field \<open>spike_noise\<close> the columns \<open>(0,0)\<close> and
  \<open>(2,0)\<close> have the same noise value 0 and the elevations -5 and -4.5, because
  \<open>getElevation\<close> reads the noise at \<open>(Math.round(xc / 2), Math.round(zc / 2))\<close>.
\<close>

theorem elevation_counterexample:
  "spike_noise 0 0 = spike_noise 2 0
   \<and> getElevation spike_noise 0 0 - 5 = - 5
   \<and> getElevation spike_noise 2 0 - 5 = - 9 / 2"
  by (simp add: getElevation_def Math_round_def spike_noise_def Let_def)

text \<open>
  Claim C3, amended. The elevation of the column \<open>(xc, zc)\<close> is
  \<open>Math.round((noise(Math.round(xc / 2), Math.round(zc / 2)) / 2) * 10) / 10 - 5\<close>, where
  \<open>Math.round(k / 2) = (k + 1) div 2\<close> for an integer \<open>k\<close>; it depends on the noise field at
  that one sample point only; \<open>generateWorld\<close> places the grass block at this elevation
  and the stone block one below; and whatever the list of visited columns is, the
  elevation recorded for \<open>(xc, zc)\<close> is this value.
\<close>

theorem elevation_samples_halved_coordinates:
  "getElevation noise xc zc - 5
     = real_of_int (Math_round ((noise ((xc + 1) div 2) ((zc + 1) div 2) / 2) * 10)) / 10 - 5
   \<and> (noise ((xc + 1) div 2) ((zc + 1) div 2) = noise' ((xc + 1) div 2) ((zc + 1) div 2)
        \<longrightarrow> getElevation noise xc zc - 5 = getElevation noise' xc zc - 5)
   \<and> map block_position (add_blocks noise xc zc)
       = [(real_of_int xc, getElevation noise xc zc - 5, real_of_int zc),
          (real_of_int xc, getElevation noise xc zc - 5 - 1, real_of_int zc)]
   \<and> ((xc, zc) \<in> set visits \<longrightarrow>
        map_of (map (\<lambda>c. (c, getElevation noise (fst c) (snd c) - 5)) visits) (xc, zc)
          = Some (getElevation noise xc zc - 5))"
proof -
  have formula: "getElevation noise xc zc
     = real_of_int (Math_round ((noise ((xc + 1) div 2) ((zc + 1) div 2) / 2) * 10)) / 10"
    for noise
    by (simp add: getElevation_def Let_def Math_round_half)
  have visit: "map_of (map (\<lambda>c. (c, getElevation noise (fst c) (snd c) - 5)) visits) (xc, zc)
          = Some (getElevation noise xc zc - 5)" if "(xc, zc) \<in> set visits"
    using that by (induction visits) auto
  have sample: "getElevation noise xc zc - 5 = getElevation noise' xc zc - 5"
    if "noise ((xc + 1) div 2) ((zc + 1) div 2) = noise' ((xc + 1) div 2) ((zc + 1) div 2)"
    using that by (simp only: formula)
  have placed: "map block_position (add_blocks noise xc zc)
       = [(real_of_int xc, getElevation noise xc zc - 5, real_of_int zc),
          (real_of_int xc, getElevation noise xc zc - 5 - 1, real_of_int zc)]"
    by (simp add: add_blocks_def Let_def)
  from formula [of noise] have shifted: "getElevation noise xc zc - 5
     = real_of_int (Math_round ((noise ((xc + 1) div 2) ((zc + 1) div 2) / 2) * 10)) / 10 - 5"
    by (rule arg_cong)
  from shifted sample placed visit show ?thesis
    by blast
qed

theorem elevation_samples_halved_coordinates_witness:
  "spike_noise ((2 + 1) div 2) ((0 + 1) div 2) = (\<lambda>xa ya. 1) ((2 + 1) div 2) ((0 + 1) div 2)
   \<and> (2, 0) \<in> set [(0, 0), (2, 0 :: int)]
   \<and> getElevation spike_noise 2 0 - 5 = getElevation (\<lambda>xa ya. 1) 2 0 - 5
   \<and> getElevation spike_noise 2 0 - 5 = - 9 / 2
   \<and> map_of (map (\<lambda>c. (c, getElevation spike_noise (fst c) (snd c) - 5)) [(0, 0), (2, 0)]) (2, 0)
       = Some (getElevation spike_noise 2 0 - 5)"
  using elevation_samples_halved_coordinates [of spike_noise 2 0 "\<lambda>xa ya. 1" "[(0, 0), (2, 0)]"]
  by (simp add: spike_noise_def Math_round_def)

section \<open>The streamer\<close>

lemma tick_frame:
  "octrees (chunkRenderLoop s) = octrees s \<and> world (chunkRenderLoop s) = world s
   \<and> camera_x (chunkRenderLoop s) = camera_x s \<and> camera_z (chunkRenderLoop s) = camera_z s
   \<and> renderDistance (chunkRenderLoop s) = renderDistance s"
  by (simp add: chunkRenderLoop_def Let_def)

lemma delete_loop_eq:
  "delete_loop vx vy r m sc
     = (filter (\<lambda>e. \<not> out_of_radius vx vy r (fst e)) m,
        foldl scene_remove sc
         (concat (map (\<lambda>e. blocks (snd e)) (filter (\<lambda>e. out_of_radius vx vy r (fst e)) m))))"
  by (induction m arbitrary: sc) auto

lemma deleteIfOutRadius_Some:
  assumes "octrees s = Some m"
  shows "deleteIfOutRadius imp r s =
     s\<lparr>octrees := Some (filter (\<lambda>e. \<not> out_of_radius (viewer_x imp s) (viewer_y imp s) (r + 1) (fst e)) m),
       world := (world s)\<lparr>scene := foldl scene_remove (scene (world s))
         (concat (map (\<lambda>e. blocks (snd e))
            (filter (\<lambda>e. out_of_radius (viewer_x imp s) (viewer_y imp s) (r + 1) (fst e)) m)))\<rparr>\<rparr>"
  by (simp add: deleteIfOutRadius_def Let_def assms delete_loop_eq)

lemma deleteIfOutRadius_None: "octrees s = None \<Longrightarrow> deleteIfOutRadius imp r s = s"
  by (simp add: deleteIfOutRadius_def Let_def)

lemma out_of_radius_window:
  "out_of_radius vx vy r (cx, cy)
    = (\<not> (real_of_int cx \<le> vx \<and> vx < real_of_int cx + real_of_int r
         \<and> real_of_int cy \<le> vy \<and> vy < real_of_int cy + real_of_int r))"
  by (auto simp add: out_of_radius_def)

lemma add_columns_state: "snd (add_columns s yy xx xlim) = s"
  by (induction s yy xx xlim rule: add_columns.induct)
     (subst add_columns.simps, simp split: option.splits)

lemma add_rows_state: "add_rows s vx xlim yy ylim = s"
proof (induction s vx xlim yy ylim rule: add_rows.induct)
  case (1 s vx xlim yy ylim)
  obtain flag s' where c: "add_columns s yy vx xlim = (flag, s')"
    by (cases "add_columns s yy vx xlim")
  with add_columns_state [of s yy vx xlim] have s': "s' = s"
    by simp
  show ?case
  proof (cases "yy < ylim")
    case True
    then show ?thesis
      using c s' "1.IH"
      by (subst add_rows.simps) (cases flag; simp)
  next
    case False
    then show ?thesis
      by (subst add_rows.simps) simp
  qed
qed

lemma addInRadius_state: "addInRadius imp r s = s"
  by (simp add: addInRadius_def Let_def add_rows_state)

lemma small_tree_eq: "small_tree = Octree \<lparr>x0 = 0, y0 = - 1, z0 = 0, width = 1, height = 1, depth = 1\<rparr>
        [\<lparr>x0 = 0, y0 = - 1, z0 = 0, width = 1, height = 1, depth = 1\<rparr>] []"
  by (simp add: small_tree_def unit_cube_def Octree_new_def overlaps_def)

lemma loadChunk_example:
  "loadChunk example_env example_world 0 0 None = (example_chunk, loaded_world)"
proof -
  have sc: "scene example_world = [AmbientLight]" "next_id example_world = 0"
    by (simp_all add: example_world_def VoxelWorld_new_def example_opts_def)
  have tv: "example_world\<lparr>voxelFaceMap := [(0, 0, 0) \<mapsto> 0, (0, - 1, 0) \<mapsto> 1]\<rparr> = two_voxels"
    by (simp add: two_voxels_def)
  have "fst (loadChunk example_env example_world 0 0 None) = example_chunk"
    by (simp add: loadChunk_chunk generate_example sc tv example_chunk_def example_mesh_def
        small_tree_eq)
  moreover have "snd (loadChunk example_env example_world 0 0 None) = loaded_world"
    by (simp add: loadChunk_world generate_example sc tv loaded_world_def example_mesh_def)
  ultimately show ?thesis
    by (simp add: prod_eq_iff)
qed

lemma viewer_far: "viewer_x example_imports loaded_state = 3" "viewer_y example_imports loaded_state = 3"
  by (simp_all add: viewer_x_def viewer_y_def example_imports_def loaded_state_def floor_to_multiple_def)

lemma viewer_near: "viewer_x example_imports near_state = 1" "viewer_y example_imports near_state = 1"
  by (simp_all add: viewer_x_def viewer_y_def example_imports_def near_state_def loaded_state_def floor_to_multiple_def)

text \<open>
  Claim C5, as stated, fails. The chunk \<open>(0,0)\<close> is loaded, the radius is 1 and the
  viewer's chunk coordinate \<open>(3,3)\<close> lies outside \<open>[0,1) \<times> [0,1)\<close>: the tick, whose counter
  has run down, leaves the chunk in the store and its mesh in the scene. And with the
  viewer at \<open>(1,1)\<close>, also outside \<open>[0,1) \<times> [0,1)\<close>, a direct call of
  \<open>deleteIfOutRadius(1)\<close> keeps the chunk, because its window is \<open>[0,2) \<times> [0,2)\<close>.
\<close>

theorem tick_unload_counterexample:
  "octrees loaded_state = Some [((0, 0), example_chunk)]
   \<and> viewer_x example_imports loaded_state = 3 \<and> viewer_y example_imports loaded_state = 3
   \<and> renderDistance loaded_state = 1 \<and> counter loaded_state \<le> 0
   \<and> octrees (chunkRenderLoop loaded_state) = Some [((0, 0), example_chunk)]
   \<and> scene (world (chunkRenderLoop loaded_state)) = [AmbientLight, MeshObject example_mesh]
   \<and> viewer_x example_imports near_state = 1 \<and> viewer_y example_imports near_state = 1
   \<and> octrees (deleteIfOutRadius example_imports 1 near_state) = Some [((0, 0), example_chunk)]
   \<and> scene (world (deleteIfOutRadius example_imports 1 near_state))
       = [AmbientLight, MeshObject example_mesh]"
proof -
  have start: "octrees loaded_state = Some [((0, 0), example_chunk)]"
    "octrees near_state = Some [((0, 0), example_chunk)]"
    "scene (world loaded_state) = [AmbientLight, MeshObject example_mesh]"
    "scene (world near_state) = [AmbientLight, MeshObject example_mesh]"
    "renderDistance loaded_state = 1" "counter loaded_state \<le> 0"
    by (simp_all add: loaded_state_def near_state_def loaded_world_def)
  have kept: "\<not> out_of_radius 1 1 2 (0, 0)"
    by (simp add: out_of_radius_def)
  show ?thesis
    by (simp add: viewer_far viewer_near tick_frame start deleteIfOutRadius_Some kept)
qed

text \<open>
  Claim C9, as stated, fails. After the chunk \<open>(0,0)\<close> was loaded and then unloaded by
  \<open>deleteIfOutRadius\<close>, its store entry and its mesh are gone and its two voxel keys are
  still in the voxel map.
\<close>

theorem unload_keeps_voxels_counterexample:
  "loaded_world = snd (loadChunk example_env example_world 0 0 None)
   \<and> octrees (deleteIfOutRadius example_imports 1 loaded_state) = Some []
   \<and> scene (world (deleteIfOutRadius example_imports 1 loaded_state)) = [AmbientLight]
   \<and> voxelFaceMap (world (deleteIfOutRadius example_imports 1 loaded_state)) (0, 0, 0) = Some 0
   \<and> voxelFaceMap (world (deleteIfOutRadius example_imports 1 loaded_state)) (0, - 1, 0) = Some 1"
proof -
  have start: "octrees loaded_state = Some [((0, 0), example_chunk)]"
    "scene (world loaded_state) = [AmbientLight, MeshObject example_mesh]"
    "voxelFaceMap (world loaded_state) = [(0, 0, 0) \<mapsto> 0, (0, - 1, 0) \<mapsto> 1]"
    by (simp_all add: loaded_state_def loaded_world_def two_voxels_def)
  have gone: "out_of_radius 3 3 2 (0, 0)"
    by (simp add: out_of_radius_def)
  show ?thesis
    by (simp add: loadChunk_example viewer_far start deleteIfOutRadius_Some gone
        example_chunk_def)
qed

text \<open>
  Claim C6, as stated, fails. The viewer stands in the chunk \<open>(3,3)\<close>, the radius is 1
  and the store holds the chunk \<open>(0,0)\<close> only: after the tick, and after a direct call
  of \<open>addInRadius(1)\<close>, the store is the same and the chunk \<open>(3,3)\<close> is not loaded.
\<close>

theorem tick_load_counterexample:
  "viewer_x example_imports loaded_state = 3 \<and> viewer_y example_imports loaded_state = 3
   \<and> renderDistance loaded_state = 1 \<and> counter loaded_state \<le> 0
   \<and> octrees (chunkRenderLoop loaded_state) = Some [((0, 0), example_chunk)]
   \<and> map_of [((0 :: int, 0 :: int), example_chunk)] (3, 3) = None
   \<and> octrees (addInRadius example_imports 1 loaded_state) = Some [((0, 0), example_chunk)]"
  by (simp add: viewer_far tick_frame addInRadius_state) (simp add: loaded_state_def)

section \<open>What the unload and load steps do\<close>

lemma out_of_radius_in_window: "out_of_radius vx vy r c = (\<not> in_window vx vy r c)"
  by (cases c) (auto simp add: out_of_radius_def in_window_def)

lemma scene_ids_remove: "scene_ids (scene_remove sc m) = remove1 (mesh_id m) (scene_ids sc)"
  by (induction sc m rule: scene_remove.induct) simp_all

lemma scene_ids_foldl_remove:
  "scene_ids (foldl scene_remove sc ms) = foldl (\<lambda>l m. remove1 (mesh_id m) l) (scene_ids sc) ms"
  by (induction ms arbitrary: sc) (simp_all add: scene_ids_remove)

lemma foldl_remove1_set:
  "distinct l \<Longrightarrow> set (foldl (\<lambda>l m. remove1 (mesh_id m) l) l ms) = set l - mesh_id ` set ms"
  by (induction ms arbitrary: l) auto

lemma deleteIfOutRadius_window_eq:
  assumes "octrees s = Some m"
  shows "deleteIfOutRadius imp r s =
     s\<lparr>octrees := Some (filter (\<lambda>e. in_window (viewer_x imp s) (viewer_y imp s) (r + 1) (fst e)) m),
       world := (world s)\<lparr>scene := foldl scene_remove (scene (world s))
         (unloaded_meshes (viewer_x imp s) (viewer_y imp s) (r + 1) m)\<rparr>\<rparr>"
  by (simp add: deleteIfOutRadius_Some [OF assms] out_of_radius_in_window unloaded_meshes_def)

text \<open>
  Claim C5, amended. The tick does not unload: it leaves the store and the scene as
  they are. \<open>deleteIfOutRadius(r)\<close> itself keeps exactly the entries \<open>(cx, cy)\<close> whose
  window \<open>[cx, cx+r+1) \<times> [cy, cy+r+1)\<close> holds the viewer coordinate
  \<open>floorMultiple(position, CHUNK_SIZE) / 8\<close>, each as it was, deletes the others from the
  store and removes their meshes from the scene: with distinct mesh identities in the
  scene, the identities left are those of the scene less those of the unloaded meshes.
\<close>

theorem deleteIfOutRadius_unloads_outside_wider_window:
  assumes "octrees s = Some m"
  shows "octrees (chunkRenderLoop s) = octrees s
       \<and> scene (world (chunkRenderLoop s)) = scene (world s)
       \<and> octrees (deleteIfOutRadius imp r s)
           = Some (filter (\<lambda>e. in_window (viewer_x imp s) (viewer_y imp s) (r + 1) (fst e)) m)
       \<and> scene (world (deleteIfOutRadius imp r s))
           = foldl scene_remove (scene (world s))
               (unloaded_meshes (viewer_x imp s) (viewer_y imp s) (r + 1) m)
       \<and> (distinct (scene_ids (scene (world s))) \<longrightarrow>
            set (scene_ids (scene (world (deleteIfOutRadius imp r s))))
              = set (scene_ids (scene (world s)))
                - mesh_id ` set (unloaded_meshes (viewer_x imp s) (viewer_y imp s) (r + 1) m))"
  using tick_frame [of s]
  by (simp add: deleteIfOutRadius_window_eq [OF assms] scene_ids_foldl_remove foldl_remove1_set)

theorem deleteIfOutRadius_unloads_outside_wider_window_witness:
  "octrees loaded_state = Some [((0, 0), example_chunk)]
   \<and> distinct (scene_ids (scene (world loaded_state)))
   \<and> \<not> in_window (viewer_x example_imports loaded_state) (viewer_y example_imports loaded_state)
         (1 + 1) (0, 0)
   \<and> octrees (deleteIfOutRadius example_imports 1 loaded_state) = Some []
   \<and> scene (world (deleteIfOutRadius example_imports 1 loaded_state)) = [AmbientLight]
   \<and> set (scene_ids (scene (world (deleteIfOutRadius example_imports 1 loaded_state)))) = {}
   \<and> octrees (chunkRenderLoop loaded_state) = Some [((0, 0), example_chunk)]"
proof -
  have start: "octrees loaded_state = Some [((0, 0), example_chunk)]"
    by (simp add: loaded_state_def)
  have sc: "scene (world loaded_state) = [AmbientLight, MeshObject example_mesh]"
    by (simp add: loaded_state_def loaded_world_def)
  have out: "\<not> in_window 3 3 2 (0, 0)"
    by (simp add: in_window_def)
  show ?thesis
    using deleteIfOutRadius_unloads_outside_wider_window [OF start, of example_imports 1]
    by (simp add: start sc out viewer_far unloaded_meshes_def example_chunk_def)
qed

text \<open>
  Claim C6, amended. Nothing is loaded: \<open>addInRadius(r)\<close> walks the window anchored at
  the viewer coordinate and looks every coordinate up, and returns with the state as
  it was (the call that would load a chunk is a comment in the source); the tick does
  not call it and leaves the store and the world as they are.
\<close>

theorem streamer_loads_nothing:
  "addInRadius imp r s = s
   \<and> octrees (chunkRenderLoop s) = octrees s
   \<and> world (chunkRenderLoop s) = world s"
  by (simp add: addInRadius_state tick_frame)

theorem streamer_loads_nothing_witness:
  "addInRadius example_imports 1 loaded_state = loaded_state
   \<and> octrees (chunkRenderLoop loaded_state) = Some [((0, 0), example_chunk)]
   \<and> world (chunkRenderLoop loaded_state) = loaded_world"
  using streamer_loads_nothing [of example_imports 1 loaded_state]
  by (simp add: loaded_state_def)

lemma viewer_after_delete:
  "viewer_x imp (deleteIfOutRadius imp r s) = viewer_x imp s"
  "viewer_y imp (deleteIfOutRadius imp r s) = viewer_y imp s"
  by (cases "octrees s"; simp add: deleteIfOutRadius_None deleteIfOutRadius_Some
      viewer_x_def viewer_y_def)+

lemma deleteIfOutRadius_idem:
  "deleteIfOutRadius imp r (deleteIfOutRadius imp r s) = deleteIfOutRadius imp r s"
proof (cases "octrees s")
  case None
  then show ?thesis
    by (simp add: deleteIfOutRadius_None)
next
  case (Some m)
  let ?kept = "filter (\<lambda>e. in_window (viewer_x imp s) (viewer_y imp s) (r + 1) (fst e)) m"
  have oct: "octrees (deleteIfOutRadius imp r s) = Some ?kept"
    by (simp add: deleteIfOutRadius_window_eq [OF Some])
  have none: "unloaded_meshes (viewer_x imp s) (viewer_y imp s) (r + 1) ?kept = []"
    by (simp add: unloaded_meshes_def)
  have "deleteIfOutRadius imp r (deleteIfOutRadius imp r s)
      = (deleteIfOutRadius imp r s)\<lparr>octrees := Some ?kept,
          world := (world (deleteIfOutRadius imp r s))
            \<lparr>scene := scene (world (deleteIfOutRadius imp r s))\<rparr>\<rparr>"
    using deleteIfOutRadius_window_eq [OF oct, of imp r]
    by (simp add: viewer_after_delete none)
  also have "\<dots> = deleteIfOutRadius imp r s"
    by (simp add: oct [symmetric])
  finally show ?thesis .
qed

text \<open>
  Claim C7. A second tick leaves the store and the scene as the first tick left them:
  a tick changes neither of them, nor the world, the camera position and the render
  distance. The two steps that the tick does not call are idempotent as well.
\<close>

theorem tick_idempotent:
  "octrees (chunkRenderLoop (chunkRenderLoop s)) = octrees (chunkRenderLoop s)
   \<and> scene (world (chunkRenderLoop (chunkRenderLoop s))) = scene (world (chunkRenderLoop s))
   \<and> octrees (chunkRenderLoop s) = octrees s
   \<and> world (chunkRenderLoop s) = world s
   \<and> camera_x (chunkRenderLoop s) = camera_x s
   \<and> camera_z (chunkRenderLoop s) = camera_z s
   \<and> renderDistance (chunkRenderLoop s) = renderDistance s
   \<and> deleteIfOutRadius imp r (deleteIfOutRadius imp r s) = deleteIfOutRadius imp r s
   \<and> addInRadius imp r (addInRadius imp r s) = addInRadius imp r s"
  by (simp add: tick_frame deleteIfOutRadius_idem addInRadius_state)

theorem tick_idempotent_witness:
  "octrees (chunkRenderLoop loaded_state) = Some [((0, 0), example_chunk)]
   \<and> octrees (chunkRenderLoop (chunkRenderLoop loaded_state)) = Some [((0, 0), example_chunk)]
   \<and> counter (chunkRenderLoop loaded_state) = 50
   \<and> counter (chunkRenderLoop (chunkRenderLoop loaded_state)) = 49
   \<and> console_clears (chunkRenderLoop (chunkRenderLoop loaded_state)) = 1"
proof -
  have start: "octrees loaded_state = Some [((0, 0), example_chunk)]"
    by (simp add: loaded_state_def)
  have counts: "counter (chunkRenderLoop loaded_state) = 50"
    "counter (chunkRenderLoop (chunkRenderLoop loaded_state)) = 49"
    "console_clears (chunkRenderLoop (chunkRenderLoop loaded_state)) = 1"
    by (simp_all add: chunkRenderLoop_def Let_def loaded_state_def counterOg_def)
  show ?thesis
    using tick_idempotent [of loaded_state example_imports 1] start counts
    by simp
qed

lemma map_of_filter_out: "\<not> P c \<Longrightarrow> map_of (filter (\<lambda>e. P (fst e)) m) c = None"
  by (induction m) auto

lemma world_after_delete:
  "world (deleteIfOutRadius imp r s) = (world s)\<lparr>scene := scene (world (deleteIfOutRadius imp r s))\<rparr>"
  by (cases "octrees s") (simp_all add: deleteIfOutRadius_None deleteIfOutRadius_Some)

text \<open>
  Claim C9, amended. Unloading does not touch the voxel map: \<open>deleteIfOutRadius\<close> and
  the tick leave it as it is, while the store entry of a chunk whose window does not
  hold the viewer is deleted; so every voxel key that loading a chunk wrote is still
  in the map after the unload step.
\<close>

theorem unload_leaves_voxel_map:
  "voxelFaceMap (world (deleteIfOutRadius imp r s)) = voxelFaceMap (world s)
   \<and> voxelFaceMap (world (chunkRenderLoop s)) = voxelFaceMap (world s)
   \<and> (octrees s = Some m \<and> \<not> in_window (viewer_x imp s) (viewer_y imp s) (r + 1) c \<longrightarrow>
        (\<exists>m'. octrees (deleteIfOutRadius imp r s) = Some m' \<and> map_of m' c = None))
   \<and> (world s = snd (loadChunk env w cx cz cy) \<longrightarrow>
        list_all (\<lambda>p. voxelFaceMap (world (deleteIfOutRadius imp r s)) p \<noteq> None)
          (snd (snd (generate env w cx cz cy))))"
proof -
  have keep: "voxelFaceMap (world (deleteIfOutRadius imp r s)) = voxelFaceMap (world s)"
    by (subst world_after_delete) simp
  have entry: "\<exists>m'. octrees (deleteIfOutRadius imp r s) = Some m' \<and> map_of m' c = None"
    if "octrees s = Some m" and "\<not> in_window (viewer_x imp s) (viewer_y imp s) (r + 1) c"
    using that by (simp add: deleteIfOutRadius_window_eq map_of_filter_out)
  have listed: "list_all (\<lambda>p. voxelFaceMap (world (deleteIfOutRadius imp r s)) p \<noteq> None)
          (snd (snd (generate env w cx cz cy)))"
    if "world s = snd (loadChunk env w cx cz cy)"
    using generate_listed [of env w cx cz cy] that
    by (simp add: keep loadChunk_world listed_in_map_def)
  from keep entry listed tick_frame [of s] show ?thesis
    by auto
qed

theorem unload_leaves_voxel_map_witness:
  "octrees loaded_state = Some [((0, 0), example_chunk)]
   \<and> \<not> in_window (viewer_x example_imports loaded_state) (viewer_y example_imports loaded_state)
         (1 + 1) (0, 0)
   \<and> world loaded_state = snd (loadChunk example_env example_world 0 0 None)
   \<and> voxelFaceMap (world (deleteIfOutRadius example_imports 1 loaded_state))
       = [(0, 0, 0) \<mapsto> 0, (0, - 1, 0) \<mapsto> 1]
   \<and> list_all (\<lambda>p. voxelFaceMap (world (deleteIfOutRadius example_imports 1 loaded_state)) p \<noteq> None)
        [(0, 0, 0), (0, - 1, 0)]"
proof -
  have start: "octrees loaded_state = Some [((0, 0), example_chunk)]"
    "world loaded_state = snd (loadChunk example_env example_world 0 0 None)"
    "voxelFaceMap (world loaded_state) = [(0, 0, 0) \<mapsto> 0, (0, - 1, 0) \<mapsto> 1]"
    by (simp_all add: loaded_state_def loadChunk_example loaded_world_def two_voxels_def)
  have out: "\<not> in_window 3 3 2 (0, 0)"
    by (simp add: in_window_def)
  note inst = unload_leaves_voxel_map [of example_imports 1 loaded_state
      "[((0, 0), example_chunk)]" "(0, 0)" example_env example_world 0 0 None]
  from inst have keep: "voxelFaceMap (world (deleteIfOutRadius example_imports 1 loaded_state))
      = voxelFaceMap (world loaded_state)"
    by blast
  from inst start(2)
  have "list_all (\<lambda>p. voxelFaceMap (world (deleteIfOutRadius example_imports 1 loaded_state)) p \<noteq> None)
      (snd (snd (generate example_env example_world 0 0 None)))"
    by blast
  then have listed: "list_all
      (\<lambda>p. voxelFaceMap (world (deleteIfOutRadius example_imports 1 loaded_state)) p \<noteq> None)
      [(0, 0, 0), (0, - 1, 0)]"
    by (simp add: generate_example)
  have outside: "\<not> in_window (viewer_x example_imports loaded_state)
      (viewer_y example_imports loaded_state) (1 + 1) (0, 0)"
    by (simp add: viewer_far out)
  from start(1,2) outside listed keep [unfolded start(3)] show ?thesis
    by blast
qed

section \<open>Loading the same chunk again\<close>

text \<open>
  A second \<open>loadChunk\<close> of a coordinate, on the world that the first one left, writes
  the same keys and values again: the voxel map, the voxel list, the tree and the mesh
  buffers are those of the first run.
\<close>

lemma apply_writes_append: "apply_writes (a @ b) m = apply_writes b (apply_writes a m)"
  by (simp add: apply_writes_def)

lemma apply_writes_Cons:
  "apply_writes (kv # ws) m = apply_writes ws (m(fst kv \<mapsto> snd kv))"
  by (simp add: apply_writes_def)

lemma apply_writes_map_add: "apply_writes ws m = m ++ map_of (rev ws)"
proof (induction ws arbitrary: m)
  case Nil
  then show ?case by (simp add: apply_writes_def)
next
  case (Cons kv ws)
  have "apply_writes (kv # ws) m = apply_writes ws (m(fst kv \<mapsto> snd kv))"
    by (simp add: apply_writes_def)
  also have "\<dots> = m(fst kv \<mapsto> snd kv) ++ map_of (rev ws)"
    by (rule Cons.IH)
  also have "\<dots> = m ++ map_of (rev (kv # ws))"
    by (cases kv) (simp add: map_add_upd_left map_add_assoc [symmetric] fun_eq_iff map_add_def
        split: option.splits)
  finally show ?case .
qed

lemma apply_writes_twice: "apply_writes ws (apply_writes ws m) = apply_writes ws m"
  by (simp add: apply_writes_map_add fun_eq_iff map_add_def split: option.splits)

lemma loadVoxel_writes:
  "voxelFaceMap (fst (loadVoxel env xc zc yb st))
     = apply_writes (column_writes env xc zc yb) (voxelFaceMap (fst st))"
proof -
  have "voxelFaceMap (fst (foldl (addBlock cap xc zc) st calls))
     = apply_writes (map (\<lambda>call. ((xc, snd call, zc), fst call)) calls) (voxelFaceMap (fst st))"
    for cap calls
  proof (induction calls arbitrary: st)
    case Nil
    then show ?case by (simp add: apply_writes_def)
  next
    case (Cons call calls)
    have step: "voxelFaceMap (fst (addBlock cap xc zc st call))
        = (voxelFaceMap (fst st))((xc, snd call, zc) \<mapsto> fst call)"
      by (cases st; cases call) (simp add: addBlock_def Let_def CoordinateMap3D_set_def)
    show ?case
      by (simp only: foldl_Cons list.map Cons.IH step apply_writes_Cons fst_conv snd_conv)
  qed
  then show ?thesis
    by (simp add: loadVoxel_def column_writes_def)
qed

lemma generate_writes:
  "voxelFaceMap (fst (generate env w cx cz cy))
     = apply_writes
         (chunk_writes env (CHUNK_SIZE w) (cx * CHUNK_SIZE w) (cz * CHUNK_SIZE w)
            (default_chunkY cy * CHUNK_SIZE w))
         (voxelFaceMap w)"
proof -
  let ?yb = "default_chunkY cy * CHUNK_SIZE w"
  let ?xb = "cx * CHUNK_SIZE w" and ?zb = "cz * CHUNK_SIZE w"
  have inner: "voxelFaceMap (fst (fold (\<lambda>zi. loadVoxel env (zi + ?xb) (i + ?zb) ?yb) zs st))
      = apply_writes (concat (map (\<lambda>zi. column_writes env (zi + ?xb) (i + ?zb) ?yb) zs))
          (voxelFaceMap (fst st))" for i zs st
    by (induction zs arbitrary: st) (simp_all add: apply_writes_def loadVoxel_writes)
  have outer: "voxelFaceMap (fst (fold (\<lambda>i. fold (\<lambda>zi. loadVoxel env (zi + ?xb) (i + ?zb) ?yb) zs) is st))
      = apply_writes
          (concat (map (\<lambda>i. concat (map (\<lambda>zi. column_writes env (zi + ?xb) (i + ?zb) ?yb) zs)) is))
          (voxelFaceMap (fst st))" for zs "is" st
    by (induction "is" arbitrary: st) (simp_all add: apply_writes_def inner)
  show ?thesis
    by (simp add: generate_def loopChunk_def Let_def outer chunk_writes_def)
qed

lemma addBlock_same_index:
  "same_index st1 st2 \<Longrightarrow> same_index (addBlock cap xc zc st1 call) (addBlock cap xc zc st2 call)"
  by (cases st1; cases st2; cases call) (simp add: same_index_def addBlock_def Let_def)

lemma loadVoxel_same_index:
  "same_index st1 st2 \<Longrightarrow> same_index (loadVoxel env xc zc yb st1) (loadVoxel env xc zc yb st2)"
  unfolding loadVoxel_def Let_def
  using addBlock_same_index by (rule foldl_related)

lemma generate_same_index:
  assumes "CHUNK_SIZE w1 = CHUNK_SIZE w2"
  shows "snd (generate env w1 cx cz cy) = snd (generate env w2 cx cz cy)"
proof -
  have "same_index (w1, t, []) (w2, t, [])" for t
    by (simp add: same_index_def)
  then have "same_index (generate env w1 cx cz cy) (generate env w2 cx cz cy)"
    unfolding generate_def Let_def assms
    using loadVoxel_same_index by (rule loopChunk_related [rotated])
  then show ?thesis
    by (simp add: same_index_def)
qed

lemma loadChunk_again:
  "voxelFaceMap (snd (loadChunk env (snd (loadChunk env w cx cz cy)) cx cz cy))
     = voxelFaceMap (snd (loadChunk env w cx cz cy))
   \<and> snd (snd (generate env (snd (loadChunk env w cx cz cy)) cx cz cy))
       = snd (snd (generate env w cx cz cy))
   \<and> tree (fst (loadChunk env (snd (loadChunk env w cx cz cy)) cx cz cy))
       = tree (fst (loadChunk env w cx cz cy))
   \<and> map geometry (blocks (fst (loadChunk env (snd (loadChunk env w cx cz cy)) cx cz cy)))
       = map geometry (blocks (fst (loadChunk env w cx cz cy)))"
proof -
  let ?w' = "snd (loadChunk env w cx cz cy)"
  let ?g = "generate env w cx cz cy" and ?g' = "generate env ?w' cx cz cy"
  have size: "CHUNK_SIZE ?w' = CHUNK_SIZE w"
    by (simp add: loadChunk_keeps_ratios)
  have map': "voxelFaceMap ?w' = voxelFaceMap (fst ?g)"
    by (simp add: loadChunk_world)
  have index: "snd ?g' = snd ?g"
    by (rule generate_same_index) (rule size)
  have again: "voxelFaceMap (fst ?g') = voxelFaceMap (fst ?g)"
    by (simp add: generate_writes [of env ?w'] size map' generate_writes [of env w]
        apply_writes_twice)
  have ratios: "tileWidthRatio (fst ?g') = tileWidthRatio (fst ?g)"
    "tileHeightRatio (fst ?g') = tileHeightRatio (fst ?g)"
    using generate_frame [of ?w' env cx cz cy] generate_frame [of w env cx cz cy]
    by (simp_all add: frame_of_def loadChunk_keeps_ratios)
  have bufs: "mesh_buffers env (fst ?g') (snd (snd ?g')) = mesh_buffers env (fst ?g) (snd (snd ?g))"
    using mesh_buffers_cong [OF again ratios] index by simp
  show ?thesis
    using again index bufs
    by (simp add: loadChunk_world [of env ?w'] loadChunk_chunk [of env ?w']
        loadChunk_chunk [of env w] map')
qed

end
